theory Spec2Isabelle
  imports Main "HOL-Library.AList" "HOL-Library.Char_ord" "HOL-Library.List_Lexorder"
begin

section \<open>Python values used by TE.py\<close>

text \<open>
  The client in \<^verbatim>\<open>TE.py\<close> works on decoded JSON: field maps and descriptors are
  Python dictionaries, tags are lists of dictionaries. A dictionary keeps its keys in
  insertion order, so it is an association list with the operations of \<^verbatim>\<open>dict\<close>;
  Python's \<^verbatim>\<open>None\<close> and JSON's \<^verbatim>\<open>null\<close> are the same value, \<open>JNull\<close>.
  JSON numbers are kept as integers (no claim reads a fractional number).
\<close>

datatype json =
    JNull
  | JBool bool
  | JInt int
  | JStr string
  | JList "json list"
  | JObj "(string \<times> json) list"

type_synonym dict = "(string \<times> json) list"

text \<open>Exceptions of the Python runtime that the modelled code can raise.\<close>

datatype py_exn =
    KeyError string
  | TypeError
  | AttributeError
  | ValueError
  | IndexError
  | OverflowError
  | HTTPError int
  | URLError
  | Exception string
  | Unmodelled

text \<open>
  \<open>Unmodelled\<close> marks the one place where this development does not determine what
  the runtime does: \<^verbatim>\<open>sorted\<close> on tag texts that are not all strings.
\<close>

definition bindE :: "'e + 'a \<Rightarrow> ('a \<Rightarrow> 'e + 'b) \<Rightarrow> 'e + 'b" where
  "bindE m f = (case m of Inl e \<Rightarrow> Inl e | Inr a \<Rightarrow> f a)"

text \<open>\<^verbatim>\<open>d.get(k)\<close>: the value, \<^verbatim>\<open>None\<close> when the key is absent.\<close>

definition py_get :: "dict \<Rightarrow> string \<Rightarrow> json" where
  "py_get d k = (case map_of d k of None \<Rightarrow> JNull | Some v \<Rightarrow> v)"

text \<open>\<^verbatim>\<open>k in d\<close>.\<close>

definition py_in :: "string \<Rightarrow> dict \<Rightarrow> bool" where
  "py_in k d = (map_of d k \<noteq> None)"

text \<open>\<^verbatim>\<open>d[k]\<close>: raises \<^verbatim>\<open>KeyError\<close> when the key is absent.\<close>

definition py_index :: "dict \<Rightarrow> string \<Rightarrow> py_exn + json" where
  "py_index d k = (case map_of d k of None \<Rightarrow> Inl (KeyError k) | Some v \<Rightarrow> Inr v)"

text \<open>\<^verbatim>\<open>d[k] = v\<close>: replaces in place, or appends a new key at the end.\<close>

definition py_set :: "dict \<Rightarrow> string \<Rightarrow> json \<Rightarrow> dict" where
  "py_set d k v = AList.update k v d"

text \<open>\<^verbatim>\<open>del d[k]\<close>: raises \<^verbatim>\<open>KeyError\<close> when the key is absent.\<close>

definition py_del :: "dict \<Rightarrow> string \<Rightarrow> py_exn + dict" where
  "py_del d k = (if py_in k d then Inr (AList.delete k d) else Inl (KeyError k))"

text \<open>\<^verbatim>\<open>d.update(other)\<close>: every item of \<^verbatim>\<open>other\<close>, in its order, is stored in \<^verbatim>\<open>d\<close>.\<close>

definition py_update :: "dict \<Rightarrow> dict \<Rightarrow> dict" where
  "py_update d other = fold (\<lambda>(k, v) acc. py_set acc k v) other d"

text \<open>\<^verbatim>\<open>sep.join(xs)\<close>.\<close>

fun py_join :: "string \<Rightarrow> string list \<Rightarrow> string" where
  "py_join sep [] = []"
| "py_join sep [x] = x"
| "py_join sep (x # y # ys) = x @ sep @ py_join sep (y # ys)"

section \<open>Post-parameter names\<close>

text \<open>\<^verbatim>\<open>Net.POST_PARAM_NAMES\<close>: every recognised name, mapped to itself.\<close>

definition POST_PARAM_NAMES :: "(string \<times> string) list" where
  "POST_PARAM_NAMES =
    [(''indicator'', ''indicator''),
     (''type'', ''type''),
     (''descriptor_id'', ''descriptor_id''),
     (''description'', ''description''),
     (''share_level'', ''share_level''),
     (''status'', ''status''),
     (''privacy_type'', ''privacy_type''),
     (''privacy_members'', ''privacy_members''),
     (''tags'', ''tags''),
     (''add_tags'', ''add_tags''),
     (''remove_tags'', ''remove_tags''),
     (''confidence'', ''confidence''),
     (''precision'', ''precision''),
     (''review_status'', ''review_status''),
     (''severity'', ''severity''),
     (''expired_on'', ''expired_on''),
     (''first_active'', ''first_active''),
     (''last_active'', ''last_active''),
     (''related_ids_for_upload'', ''related_ids_for_upload''),
     (''related_triples_for_upload_as_json'', ''related_triples_for_upload_as_json''),
     (''reactions'', ''reactions''),
     (''reactions_to_remove'', ''reactions_to_remove'')]"

section \<open>Client-side validation of post parameters\<close>

text \<open>
  Each validator returns an error message or \<^verbatim>\<open>None\<close>. The source reads the map
  through \<^verbatim>\<open>get\<close> only (there is no assignment to it and no \<^verbatim>\<open>del\<close>), so a validator
  is a function of the map's contents. \<^verbatim>\<open>cls.POST_PARAM_NAMES["x"]\<close> is the string
  \<^verbatim>\<open>"x"\<close> for each name used below.
\<close>

definition requiredFields :: "string list" where
  "requiredFields =
    [''indicator'', ''type'', ''description'', ''share_level'', ''status'', ''privacy_type'']"

definition validatePostPararmsForSubmit :: "dict \<Rightarrow> string option" where
  "validatePostPararmsForSubmit postParams =
    (if py_get postParams ''descriptor_id'' \<noteq> JNull
     then Some ''descriptor_id must not be specified for submit.''
     else
       let missingFields0 =
             map (\<lambda>fieldName. if py_get postParams fieldName = JNull
                               then Some fieldName else None) requiredFields;
           missingFields = [fieldName. Some fieldName \<leftarrow> missingFields0]
       in if missingFields = [] then None
          else if length missingFields = 1
          then Some (''Missing field '' @ missingFields ! 0)
          else Some (''Missing fields '' @ py_join '','' missingFields))"

definition validatePostPararmsForUpdate :: "dict \<Rightarrow> string option" where
  "validatePostPararmsForUpdate postParams =
    (if py_get postParams ''descriptor_id'' = JNull
     then Some ''Descriptor ID must be specified for update.''
     else if py_get postParams ''indicator'' = JNull
     then (if py_get postParams ''type'' \<noteq> JNull
           then Some ''Type must not be specified for update.''
           else None)
     else Some ''Indicator must not be specified for update.'')"

definition validatePostPararmsForCopy :: "dict \<Rightarrow> string option" where
  "validatePostPararmsForCopy postParams =
    (if py_get postParams ''descriptor_id'' = JNull
     then Some ''Source-descriptor ID must be specified for copy.''
     else if py_get postParams ''privacy_type'' = JNull
     then Some ''Privacy type must be specified for copy.''
     else if py_get postParams ''privacy_members'' = JNull
     then Some ''Privacy members must be specified for copy.''
     else None)"

section \<open>Library functions and the network\<close>

text \<open>
  Functions of the Python library that the client calls and whose code is not part of
  the repository are parameters of the model: \<^verbatim>\<open>urllib.parse.quote\<close>, \<^verbatim>\<open>str\<close>,
  \<^verbatim>\<open>urllib.parse.urlencode\<close>, \<^verbatim>\<open>int\<close> on a string (\<open>None\<close> when it raises
  \<^verbatim>\<open>ValueError\<close>), \<^verbatim>\<open>int(datetime.datetime.strptime(s, fmt).timestamp())\<close>, and
  \<^verbatim>\<open>int((datetime.datetime.now() - datetime.timedelta(unit=count)).timestamp())\<close>.
\<close>

record pylib =
  quote :: "string \<Rightarrow> string"
  str_of :: "json \<Rightarrow> string"
  urlencode :: "dict \<Rightarrow> string"
  int_of :: "string \<Rightarrow> int option"
  strptime_timestamp :: "string \<Rightarrow> string \<Rightarrow> py_exn + int"
  now_minus :: "string \<Rightarrow> int \<Rightarrow> py_exn + int"

text \<open>
  What \<^verbatim>\<open>urllib.request.urlopen\<close> does on a read: it returns a response, whose body
  is later decoded by \<^verbatim>\<open>json.loads(response.read().decode("utf-8"))\<close> (a value, or the
  exception of the decoding); it raises \<^verbatim>\<open>urllib.error.HTTPError\<close> with a status
  code; or it raises something else. On a write an \<^verbatim>\<open>HTTPError\<close> carries a body too.
\<close>

datatype get_outcome =
    GetResponse "py_exn + json"
  | GetHTTPError int
  | GetFailure py_exn

datatype post_outcome =
    PostResponse "py_exn + json"
  | PostHTTPError int "py_exn + json"
  | PostFailure py_exn

datatype request = GET string | POST string string

text \<open>
  The state the client runs in: the two class attributes, the remote side (the answer to
  a request may depend on how many requests were made before it), the requests made so
  far, and the arguments the page callback has been invoked with so far. The callback
  itself is taken to return normally.
\<close>

record world =
  TE_BASE_URL :: string
  APP_TOKEN :: "string option"
  on_get :: "nat \<Rightarrow> string \<Rightarrow> get_outcome"
  on_post :: "nat \<Rightarrow> string \<Rightarrow> string \<Rightarrow> post_outcome"
  requests :: "request list"
  delivered :: "json list list"

text \<open>\<^verbatim>\<open>s + cls.APP_TOKEN\<close>: a \<^verbatim>\<open>TypeError\<close> while the token is still \<^verbatim>\<open>None\<close>.\<close>

definition plus_APP_TOKEN :: "string \<Rightarrow> world \<Rightarrow> py_exn + string" where
  "plus_APP_TOKEN s w = (case APP_TOKEN w of None \<Rightarrow> Inl TypeError | Some t \<Rightarrow> Inr (s @ t))"

subsection \<open>getJSONFromURL\<close>

text \<open>
  \<^verbatim>\<open>tryGET\<close> returns the pair \<^verbatim>\<open>[response, None]\<close> or \<^verbatim>\<open>[None, e]\<close>; only
  \<^verbatim>\<open>HTTPError\<close> is caught.
\<close>

definition tryGET ::
  "string \<Rightarrow> world \<Rightarrow> (py_exn + ((py_exn + json) option \<times> int option)) \<times> world" where
  "tryGET url w =
    (let w' = w\<lparr>requests := requests w @ [GET url]\<rparr> in
     case on_get w (length (requests w)) url of
       GetResponse body \<Rightarrow> (Inr (Some body, None), w')
     | GetHTTPError code \<Rightarrow> (Inr (None, Some code), w')
     | GetFailure e \<Rightarrow> (Inl e, w'))"

function getJSONFromURL_loop :: "string \<Rightarrow> nat \<Rightarrow> world \<Rightarrow> (py_exn + json) \<times> world" where
  "getJSONFromURL_loop url numTries0 w =
    (let numTries = numTries0 + 1 in
     case tryGET url w of
       (Inl e, w') \<Rightarrow> (Inl e, w')
     | (Inr (Some body, error), w') \<Rightarrow> (body, w')
     | (Inr (None, None), w') \<Rightarrow> (Inl AttributeError, w')
     | (Inr (None, Some code), w') \<Rightarrow>
         if code < 500 \<or> code \<ge> 600 then (Inl (HTTPError code), w')
         else if numTries > 4 then (Inl (HTTPError code), w')
         else getJSONFromURL_loop url numTries w')"
  by pat_completeness auto
termination
  by (relation "measure (\<lambda>(url, numTries0, w). 4 - numTries0)") auto

declare getJSONFromURL_loop.simps [simp del]

definition getJSONFromURL :: "string \<Rightarrow> world \<Rightarrow> (py_exn + json) \<times> world" where
  "getJSONFromURL url w = getJSONFromURL_loop url 0 w"

text \<open>
  The paginators pass whatever \<^verbatim>\<open>paging["next"]\<close> holds; \<^verbatim>\<open>urlopen\<close> on a value that
  is not a string raises \<^verbatim>\<open>AttributeError\<close> before any request is made.
\<close>

definition getJSONFromURL_json :: "json \<Rightarrow> world \<Rightarrow> (py_exn + json) \<times> world" where
  "getJSONFromURL_json url w =
    (case url of JStr u \<Rightarrow> getJSONFromURL u w | _ \<Rightarrow> (Inl AttributeError, w))"

subsection \<open>Subscripts, iteration and membership on decoded JSON\<close>

text \<open>\<^verbatim>\<open>x[k]\<close> with a string key: only a dictionary accepts it.\<close>

definition py_subscript :: "json \<Rightarrow> string \<Rightarrow> py_exn + json" where
  "py_subscript x k = (case x of JObj d \<Rightarrow> py_index d k | _ \<Rightarrow> Inl TypeError)"

text \<open>\<^verbatim>\<open>for item in x\<close>: the elements of a list, the characters of a string, the keys of
  a dictionary.\<close>

definition py_iter :: "json \<Rightarrow> py_exn + json list" where
  "py_iter x =
    (case x of
       JList xs \<Rightarrow> Inr xs
     | JStr s \<Rightarrow> Inr (map (\<lambda>c. JStr [c]) s)
     | JObj d \<Rightarrow> Inr (map (\<lambda>(k, v). JStr k) d)
     | _ \<Rightarrow> Inl TypeError)"

fun is_substring :: "string \<Rightarrow> string \<Rightarrow> bool" where
  "is_substring k [] = (k = [])"
| "is_substring k (c # cs) = (take (length k) (c # cs) = k \<or> is_substring k cs)"

text \<open>\<^verbatim>\<open>k in x\<close> for a string \<^verbatim>\<open>k\<close>.\<close>

definition py_contains :: "string \<Rightarrow> json \<Rightarrow> py_exn + bool" where
  "py_contains k x =
    (case x of
       JObj d \<Rightarrow> Inr (py_in k d)
     | JList xs \<Rightarrow> Inr (JStr k \<in> set xs)
     | JStr s \<Rightarrow> Inr (is_substring k s)
     | _ \<Rightarrow> Inl TypeError)"

text \<open>
  The continuation pointer, as both paginators compute it:
  \<^verbatim>\<open>nextURL = None; if "paging" in response: paging = response["paging"];
  if "next" in paging: nextURL = paging["next"]\<close>.
\<close>

definition next_url :: "json \<Rightarrow> py_exn + json" where
  "next_url response =
    bindE (py_contains ''paging'' response) (\<lambda>has_paging.
      if has_paging then
        bindE (py_subscript response ''paging'') (\<lambda>paging.
        bindE (py_contains ''next'' paging) (\<lambda>has_next.
          if has_next then py_subscript paging ''next'' else Inr JNull))
      else Inr JNull)"

subsection \<open>processDescriptorIDsByTagID\<close>

definition THREAT_DESCRIPTOR :: string where
  "THREAT_DESCRIPTOR = ''THREAT_DESCRIPTOR''"

record options =
  verbose :: bool
  showURLs :: bool
  includeIndicatorInOutput :: bool
  pageSize :: json
  taggedSince :: "string option"
  taggedUntil :: "string option"

text \<open>The keyword defaults of \<^verbatim>\<open>processDescriptorIDsByTagID\<close>.\<close>

definition default_options :: options where
  "default_options =
    \<lparr>verbose = False, showURLs = False, includeIndicatorInOutput = True,
     pageSize = JInt 10, taggedSince = None, taggedUntil = None\<rparr>"

text \<open>
  The \<^verbatim>\<open>for item in data\<close> loop, with \<open>ids\<close> the list built so far. When the
  indicator is not wanted the item's \<^verbatim>\<open>name\<close> is deleted (the item itself is not handed
  on, only its id). What \<^verbatim>\<open>print\<close> writes is not modelled.
\<close>

fun collect_ids :: "bool \<Rightarrow> json list \<Rightarrow> json list \<Rightarrow> py_exn + json list" where
  "collect_ids inc [] ids = Inr ids"
| "collect_ids inc (item # rest) ids =
    bindE (py_subscript item ''id'') (\<lambda>itemID.
    bindE (py_subscript item ''type'') (\<lambda>itemType.
    bindE (if inc then py_subscript item ''name''
           else (case item of
                   JObj d \<Rightarrow> bindE (py_del d ''name'') (\<lambda>d'. Inr JNull)
                 | _ \<Rightarrow> Inl TypeError)) (\<lambda>itemName.
      if itemType \<noteq> JStr THREAT_DESCRIPTOR then collect_ids inc rest ids
      else collect_ids inc rest (ids @ [itemID]))))"

text \<open>\<^verbatim>\<open>idProcessorCallback(ids)\<close>.\<close>

definition callback :: "json list \<Rightarrow> world \<Rightarrow> world" where
  "callback batch w = w\<lparr>delivered := delivered w @ [batch]\<rparr>"

text \<open>
  The \<^verbatim>\<open>while nextURL != None\<close> loop. The source puts no bound on the number of
  pages, so the model takes fuel: one unit per page fetched, \<open>None\<close> when it runs out
  before the loop has ended.
\<close>

fun processDescriptorIDsByTagID_loop ::
  "nat \<Rightarrow> bool \<Rightarrow> json \<Rightarrow> world \<Rightarrow> ((py_exn + unit) \<times> world) option" where
  "processDescriptorIDsByTagID_loop fuel inc nextURL w =
    (if nextURL = JNull then Some (Inr (), w)
     else case fuel of
       0 \<Rightarrow> None
     | Suc fuel' \<Rightarrow>
        (case getJSONFromURL_json nextURL w of
           (Inl e, w1) \<Rightarrow> Some (Inl e, w1)
         | (Inr response, w1) \<Rightarrow>
            (case bindE (py_subscript response ''data'') (\<lambda>data.
                  bindE (next_url response) (\<lambda>nextURL'.
                  bindE (py_iter data) (\<lambda>items.
                  bindE (collect_ids inc items []) (\<lambda>ids. Inr (ids, nextURL'))))) of
               Inl e \<Rightarrow> Some (Inl e, w1)
             | Inr (ids, nextURL') \<Rightarrow>
                 processDescriptorIDsByTagID_loop fuel' inc nextURL' (callback ids w1))))"

definition tagged_objects_startURL :: "pylib \<Rightarrow> string \<Rightarrow> options \<Rightarrow> world \<Rightarrow> py_exn + string" where
  "tagged_objects_startURL L tagID opts w =
    bindE (plus_APP_TOKEN (TE_BASE_URL w @ ''/'' @ tagID @ ''/tagged_objects'' @ ''/?access_token='') w)
      (\<lambda>u0.
        let u1 = u0 @ ''&limit='' @ str_of L (pageSize opts);
            u2 = (case taggedSince opts of
                    None \<Rightarrow> u1 | Some t \<Rightarrow> u1 @ ''&tagged_since='' @ quote L t);
            u3 = (case taggedUntil opts of
                    None \<Rightarrow> u2 | Some t \<Rightarrow> u2 @ ''&tagged_until='' @ quote L t)
        in Inr u3)"

definition processDescriptorIDsByTagID ::
  "pylib \<Rightarrow> nat \<Rightarrow> string \<Rightarrow> options \<Rightarrow> world \<Rightarrow> ((py_exn + unit) \<times> world) option" where
  "processDescriptorIDsByTagID L fuel tagID opts w =
    (case tagged_objects_startURL L tagID opts w of
       Inl e \<Rightarrow> Some (Inl e, w)
     | Inr startURL \<Rightarrow>
         processDescriptorIDsByTagID_loop fuel (includeIndicatorInOutput opts) (JStr startURL) w)"

subsection \<open>Vocabulary for statements about requests\<close>

text \<open>A response with a status in the range 500 to 599.\<close>

definition server_error :: "get_outcome \<Rightarrow> bool" where
  "server_error out = (case out of GetHTTPError code \<Rightarrow> 500 \<le> code \<and> code < 600 | _ \<Rightarrow> False)"

text \<open>The state after \<open>n\<close> more reads of the same URL.\<close>

definition sent :: "nat \<Rightarrow> string \<Rightarrow> world \<Rightarrow> world" where
  "sent n url w = w\<lparr>requests := requests w @ replicate n (GET url)\<rparr>"

text \<open>A remote side that answers every read with status 503, and one that answers 404.\<close>

definition world503 :: world where
  "world503 = \<lparr>TE_BASE_URL = ''https://graph.facebook.com/v6.0'', APP_TOKEN = Some ''t'',
     on_get = (\<lambda>n url. GetHTTPError 503), on_post = (\<lambda>n url body. PostFailure URLError),
     requests = [], delivered = []\<rparr>"

definition world404 :: world where
  "world404 = world503\<lparr>on_get := (\<lambda>n url. GetHTTPError 404)\<rparr>"

subsection \<open>Normalising a descriptor\<close>

text \<open>The strings of a list, when every element is a string.\<close>

fun strings_of :: "json list \<Rightarrow> string list option" where
  "strings_of [] = Some []"
| "strings_of (JStr s # xs) = map_option ((#) s) (strings_of xs)"
| "strings_of (_ # xs) = None"

text \<open>
  \<^verbatim>\<open>sorted(xs)\<close> and \<^verbatim>\<open>xs.sort()\<close> on strings: ascending in the default order of
  \<^verbatim>\<open>str\<close>, which compares code point by code point and puts a proper prefix first
  (the order of \<open>string\<close> here, on the bytes of the UTF-8 encoding, which orders text
  the same way). Sorting values that are not all strings is not modelled.
\<close>

definition py_sorted :: "json list \<Rightarrow> py_exn + json list" where
  "py_sorted xs =
    (case strings_of xs of Some ss \<Rightarrow> Inr (map JStr (sort ss)) | None \<Rightarrow> Inl Unmodelled)"

text \<open>\<^verbatim>\<open>[tag["text"] for tag in tags]\<close>.\<close>

fun tag_texts :: "json list \<Rightarrow> py_exn + json list" where
  "tag_texts [] = Inr []"
| "tag_texts (tag # tags) =
    bindE (py_subscript tag ''text'') (\<lambda>t. bindE (tag_texts tags) (\<lambda>ts. Inr (t # ts)))"

text \<open>
  What both \<^verbatim>\<open>getInfoForIDs\<close> and \<^verbatim>\<open>doPowerSearch\<close> store under \<^verbatim>\<open>tags\<close>, from the
  value \<^verbatim>\<open>descriptor.get("tags", None)\<close>:
  \<^verbatim>\<open>tags = [] if tags is None else tags["data"]\<close>, then the sorted texts.
\<close>

definition canonical_tags :: "json \<Rightarrow> py_exn + json" where
  "canonical_tags tags0 =
    bindE (if tags0 = JNull then Inr (JList []) else py_subscript tags0 ''data'') (\<lambda>tags.
    bindE (py_iter tags) (\<lambda>tag_list.
    bindE (tag_texts tag_list) (\<lambda>texts.
    bindE (py_sorted texts) (\<lambda>sorted_texts. Inr (JList sorted_texts)))))"

text \<open>\<^verbatim>\<open>if descriptor.get("description") is None: descriptor["description"] = ""\<close>.\<close>

definition normalize_description :: "dict \<Rightarrow> dict" where
  "normalize_description descriptor =
    (if py_get descriptor ''description'' = JNull
     then py_set descriptor ''description'' (JStr [])
     else descriptor)"

text \<open>\<^verbatim>\<open>del x[k]\<close> on a decoded JSON value.\<close>

definition py_delitem :: "json \<Rightarrow> string \<Rightarrow> py_exn + json" where
  "py_delitem x k =
    (case x of JObj d \<Rightarrow> bindE (py_del d k) (\<lambda>d'. Inr (JObj d')) | _ \<Rightarrow> Inl TypeError)"

text \<open>
  The two statements that follow the optional deletion in the body of either loop:
  the tags are canonicalised, then the description. \<^verbatim>\<open>descriptor.get\<close> exists on a
  dictionary only.
\<close>

definition normalize_descriptor :: "json \<Rightarrow> py_exn + json" where
  "normalize_descriptor descriptor =
    (case descriptor of
       JObj d \<Rightarrow>
         bindE (canonical_tags (py_get d ''tags'')) (\<lambda>tags.
           Inr (JObj (normalize_description (py_set d ''tags'' tags))))
     | _ \<Rightarrow> Inl AttributeError)"

subsection \<open>getInfoForIDs\<close>

text \<open>\<^verbatim>\<open>try: _ = int(id) except ValueError: raise Exception('Malformed descriptor ID "%s"' % id)\<close>.\<close>

definition check_id :: "pylib \<Rightarrow> json \<Rightarrow> py_exn + unit" where
  "check_id L ident =
    (case ident of
       JStr s \<Rightarrow> (case int_of L s of
                    None \<Rightarrow> Inl (Exception (''Malformed descriptor ID \"'' @ s @ ''\"''))
                  | Some n \<Rightarrow> Inr ())
     | JInt n \<Rightarrow> Inr ()
     | JBool b \<Rightarrow> Inr ()
     | _ \<Rightarrow> Inl TypeError)"

fun check_ids :: "pylib \<Rightarrow> json list \<Rightarrow> py_exn + unit" where
  "check_ids L [] = Inr ()"
| "check_ids L (ident # ids) = bindE (check_id L ident) (\<lambda>u. check_ids L ids)"

text \<open>\<^verbatim>\<open>",".join(ids)\<close>: every element has to be a string.\<close>

definition join_ids :: "json list \<Rightarrow> py_exn + string" where
  "join_ids ids =
    (case strings_of ids of Some ss \<Rightarrow> Inr (py_join '','' ss) | None \<Rightarrow> Inl TypeError)"

definition descriptor_fields :: string where
  "descriptor_fields = ''&fields=raw_indicator,type,added_on,last_updated,confidence,owner,privacy_type,review_status,status,severity,share_level,tags,description,reactions,my_reactions''"

text \<open>The body of \<^verbatim>\<open>for id, descriptor in response.items()\<close>.\<close>

definition getInfoForIDs_item :: "bool \<Rightarrow> json \<Rightarrow> py_exn + json" where
  "getInfoForIDs_item inc descriptor =
    bindE (if inc = False then py_delitem descriptor ''raw_indicator'' else Inr descriptor)
      normalize_descriptor"

fun getInfoForIDs_items :: "bool \<Rightarrow> (string \<times> json) list \<Rightarrow> py_exn + json list" where
  "getInfoForIDs_items inc [] = Inr []"
| "getInfoForIDs_items inc ((ident, descriptor) # rest) =
    bindE (getInfoForIDs_item inc descriptor) (\<lambda>d.
    bindE (getInfoForIDs_items inc rest) (\<lambda>ds. Inr (d # ds)))"

definition getInfoForIDs ::
  "pylib \<Rightarrow> json list \<Rightarrow> bool \<Rightarrow> world \<Rightarrow> (py_exn + json list) \<times> world" where
  "getInfoForIDs L ids inc w =
    (case bindE (check_ids L ids) (\<lambda>u.
          bindE (plus_APP_TOKEN (TE_BASE_URL w @ ''/?access_token='') w) (\<lambda>u0.
          bindE (join_ids ids) (\<lambda>joined. Inr (u0 @ ''&ids='' @ joined @ descriptor_fields)))) of
       Inl e \<Rightarrow> (Inl e, w)
     | Inr url \<Rightarrow>
        (case getJSONFromURL url w of
           (Inl e, w1) \<Rightarrow> (Inl e, w1)
         | (Inr response, w1) \<Rightarrow>
            (case response of
               JObj r \<Rightarrow> (getInfoForIDs_items inc r, w1)
             | _ \<Rightarrow> (Inl AttributeError, w1))))"

subsection \<open>doPowerSearch\<close>

text \<open>The body of \<^verbatim>\<open>for descriptor in data\<close>; here it is \<^verbatim>\<open>name\<close> that is deleted.\<close>

definition doPowerSearch_item :: "bool \<Rightarrow> json \<Rightarrow> py_exn + json" where
  "doPowerSearch_item inc descriptor =
    bindE (if \<not> inc then py_delitem descriptor ''name'' else Inr descriptor)
      normalize_descriptor"

fun doPowerSearch_items :: "bool \<Rightarrow> json list \<Rightarrow> py_exn + json list" where
  "doPowerSearch_items inc [] = Inr []"
| "doPowerSearch_items inc (descriptor # rest) =
    bindE (doPowerSearch_item inc descriptor) (\<lambda>d.
    bindE (doPowerSearch_items inc rest) (\<lambda>ds. Inr (d # ds)))"

text \<open>The \<^verbatim>\<open>while nextURL is not None\<close> loop, with fuel as above.\<close>

fun doPowerSearch_loop ::
  "nat \<Rightarrow> bool \<Rightarrow> json \<Rightarrow> world \<Rightarrow> ((py_exn + unit) \<times> world) option" where
  "doPowerSearch_loop fuel inc nextURL w =
    (if nextURL = JNull then Some (Inr (), w)
     else case fuel of
       0 \<Rightarrow> None
     | Suc fuel' \<Rightarrow>
        (case getJSONFromURL_json nextURL w of
           (Inl e, w1) \<Rightarrow> Some (Inl e, w1)
         | (Inr response, w1) \<Rightarrow>
            (case bindE (py_subscript response ''data'') (\<lambda>data.
                  bindE (next_url response) (\<lambda>nextURL'.
                  bindE (py_iter data) (\<lambda>items.
                  bindE (doPowerSearch_items inc items) (\<lambda>descriptors.
                    Inr (descriptors, nextURL'))))) of
               Inl e \<Rightarrow> Some (Inl e, w1)
             | Inr (descriptors, nextURL') \<Rightarrow>
                 doPowerSearch_loop fuel' inc nextURL' (callback descriptors w1))))"

definition doPowerSearch ::
  "pylib \<Rightarrow> nat \<Rightarrow> (string \<times> string) list \<Rightarrow> options \<Rightarrow> world
     \<Rightarrow> ((py_exn + unit) \<times> world) option" where
  "doPowerSearch L fuel urlParams opts w =
    (case plus_APP_TOKEN (TE_BASE_URL w @ ''/threat_descriptors'' @ ''/?access_token='') w of
       Inl e \<Rightarrow> Some (Inl e, w)
     | Inr u0 \<Rightarrow>
         let startURL = fold (\<lambda>(key, value) u. u @ ''&'' @ key @ ''='' @ quote L value)
                          urlParams (u0 @ descriptor_fields)
         in doPowerSearch_loop fuel (includeIndicatorInOutput opts) (JStr startURL) w)"

subsection \<open>Vocabulary for statements about pages\<close>

text \<open>
  A page as the comment in \<^verbatim>\<open>processDescriptorIDsByTagID\<close> describes it: \<^verbatim>\<open>data\<close> is
  a list of objects with \<^verbatim>\<open>id\<close>, \<^verbatim>\<open>type\<close> and \<^verbatim>\<open>name\<close>, and \<^verbatim>\<open>paging\<close>, when there,
  is an object.
\<close>

definition wf_item :: "json \<Rightarrow> bool" where
  "wf_item item =
    (case item of
       JObj d \<Rightarrow> py_in ''id'' d \<and> py_in ''type'' d \<and> py_in ''name'' d
     | _ \<Rightarrow> False)"

definition page_items :: "dict \<Rightarrow> json list option" where
  "page_items r = (case map_of r ''data'' of Some (JList items) \<Rightarrow> Some items | _ \<Rightarrow> None)"

definition page_next :: "dict \<Rightarrow> json option" where
  "page_next r =
    (case map_of r ''paging'' of Some (JObj paging) \<Rightarrow> map_of paging ''next'' | _ \<Rightarrow> None)"

definition wf_page :: "dict \<Rightarrow> bool" where
  "wf_page r =
    ((case page_items r of Some items \<Rightarrow> list_all wf_item items | None \<Rightarrow> False)
     \<and> (case map_of r ''paging'' of
          None \<Rightarrow> True | Some (JObj paging) \<Rightarrow> True | Some _ \<Rightarrow> False))"

definition item_field :: "string \<Rightarrow> json \<Rightarrow> json" where
  "item_field k item = (case item of JObj d \<Rightarrow> py_get d k | _ \<Rightarrow> JNull)"

text \<open>The ids of the items of a page whose type is \<^verbatim>\<open>THREAT_DESCRIPTOR\<close>, in page order.\<close>

definition page_ids :: "dict \<Rightarrow> json list" where
  "page_ids r =
    map (item_field ''id'')
      (filter (\<lambda>item. item_field ''type'' item = JStr THREAT_DESCRIPTOR)
         (case page_items r of Some items \<Rightarrow> items | None \<Rightarrow> []))"

text \<open>
  \<open>linked srv n url rs\<close>: the pages \<open>rs\<close> (at least one) are what the remote side answers
  from request number \<open>n\<close> on, the first to \<open>url\<close>, each next one to the URL under
  \<^verbatim>\<open>paging.next\<close> of the page before, and the last page has no \<^verbatim>\<open>paging.next\<close>.
\<close>

fun linked :: "(nat \<Rightarrow> string \<Rightarrow> get_outcome) \<Rightarrow> nat \<Rightarrow> string \<Rightarrow> dict list \<Rightarrow> bool" where
  "linked srv n url [] = False"
| "linked srv n url (r # rs) =
    (srv n url = GetResponse (Inr (JObj r)) \<and> wf_page r
     \<and> (case rs of
          [] \<Rightarrow> page_next r = None
        | _ # _ \<Rightarrow> (case page_next r of
                      Some (JStr u) \<Rightarrow> linked srv (Suc n) u rs
                    | _ \<Rightarrow> False)))"

section \<open>Time expressions\<close>

text \<open>\<^verbatim>\<open>_parseIntStringToEpochSeconds\<close>: \<^verbatim>\<open>int(mixedString)\<close>, \<^verbatim>\<open>None\<close> on \<^verbatim>\<open>ValueError\<close>.\<close>

definition parseIntStringToEpochSeconds :: "pylib \<Rightarrow> string \<Rightarrow> int option" where
  "parseIntStringToEpochSeconds L mixedString = int_of L mixedString"

definition DATETIME_FORMATS :: "string list" where
  "DATETIME_FORMATS =
    [''%Y-%m-%dT%H:%M:%S%z'',
     ''%Y-%m-%d %H:%M:%S'',
     ''%Y/%m/%d %H:%M:%S'',
     ''%Y-%m-%dT%H:%M:%S'',
     ''%Y-%m-%dT%H:%M:%SZ'']"

text \<open>\<^verbatim>\<open>_parseDateTimeStringSingleFormat\<close>: only \<^verbatim>\<open>ValueError\<close> is caught.\<close>

definition parseDateTimeStringSingleFormat ::
  "pylib \<Rightarrow> string \<Rightarrow> string \<Rightarrow> py_exn + int option" where
  "parseDateTimeStringSingleFormat L mixedString formatString =
    (case strptime_timestamp L mixedString formatString of
       Inr t \<Rightarrow> Inr (Some t)
     | Inl ValueError \<Rightarrow> Inr None
     | Inl e \<Rightarrow> Inl e)"

fun parseDateTimeStringToEpochSeconds_loop ::
  "pylib \<Rightarrow> string \<Rightarrow> string list \<Rightarrow> py_exn + int option" where
  "parseDateTimeStringToEpochSeconds_loop L mixedString [] = Inr None"
| "parseDateTimeStringToEpochSeconds_loop L mixedString (formatString # formats) =
    bindE (parseDateTimeStringSingleFormat L mixedString formatString) (\<lambda>retval.
      if retval \<noteq> None then Inr retval
      else parseDateTimeStringToEpochSeconds_loop L mixedString formats)"

definition parseDateTimeStringToEpochSeconds :: "pylib \<Rightarrow> string \<Rightarrow> py_exn + int option" where
  "parseDateTimeStringToEpochSeconds L mixedString =
    parseDateTimeStringToEpochSeconds_loop L mixedString DATETIME_FORMATS"

definition is_digit :: "char \<Rightarrow> bool" where
  "is_digit c = (CHR ''0'' \<le> c \<and> c \<le> CHR ''9'')"

text \<open>
  \<^verbatim>\<open>re.compile("^-([0-9]+)" + unit + "s?$").match(mixedString)\<close>, giving group 1. The
  digits are taken greedily and the unit word does not start with a digit, so the group
  is the longest run of digits after the minus sign. Without \<^verbatim>\<open>re.MULTILINE\<close>, \<^verbatim>\<open>$\<close>
  matches at the end of the string and also just before a newline that ends the string.
\<close>

definition relative_match :: "string \<Rightarrow> string \<Rightarrow> string option" where
  "relative_match unit mixedString =
    (case mixedString of
       [] \<Rightarrow> None
     | c # rest \<Rightarrow>
        if c \<noteq> CHR ''-'' then None
        else let digits = takeWhile is_digit rest; after = dropWhile is_digit rest in
          if digits \<noteq> []
             \<and> (after = unit \<or> after = unit @ ''s''
                  \<or> after = unit @ [CHR 0x0A] \<or> after = unit @ ''s'' @ [CHR 0x0A])
          then Some digits else None)"

text \<open>
  The common shape of \<^verbatim>\<open>_parseRelativeStringMinute\<close>, \<^verbatim>\<open>...Hour\<close>, \<^verbatim>\<open>...Day\<close> and
  \<^verbatim>\<open>...Week\<close>: the pattern for the unit word, \<^verbatim>\<open>count = int(output[1])\<close>, and the time
  \<^verbatim>\<open>count\<close> units ago under the keyword of \<^verbatim>\<open>datetime.timedelta\<close>. Nothing is caught.
\<close>

definition parseRelativeString ::
  "pylib \<Rightarrow> string \<Rightarrow> string \<Rightarrow> string \<Rightarrow> py_exn + int option" where
  "parseRelativeString L unit keyword mixedString =
    (case relative_match unit mixedString of
       None \<Rightarrow> Inr None
     | Some digits \<Rightarrow>
        (case int_of L digits of
           None \<Rightarrow> Inl ValueError
         | Some count \<Rightarrow> bindE (now_minus L keyword count) (\<lambda>t. Inr (Some t))))"

definition parseRelativeStringMinute :: "pylib \<Rightarrow> string \<Rightarrow> py_exn + int option" where
  "parseRelativeStringMinute L mixedString = parseRelativeString L ''minute'' ''minutes'' mixedString"

definition parseRelativeStringHour :: "pylib \<Rightarrow> string \<Rightarrow> py_exn + int option" where
  "parseRelativeStringHour L mixedString = parseRelativeString L ''hour'' ''hours'' mixedString"

definition parseRelativeStringDay :: "pylib \<Rightarrow> string \<Rightarrow> py_exn + int option" where
  "parseRelativeStringDay L mixedString = parseRelativeString L ''day'' ''days'' mixedString"

definition parseRelativeStringWeek :: "pylib \<Rightarrow> string \<Rightarrow> py_exn + int option" where
  "parseRelativeStringWeek L mixedString = parseRelativeString L ''week'' ''weeks'' mixedString"

definition parseRelativeStringToEpochSeconds :: "pylib \<Rightarrow> string \<Rightarrow> py_exn + int option" where
  "parseRelativeStringToEpochSeconds L mixedString =
    bindE (parseRelativeStringMinute L mixedString) (\<lambda>retval.
      if retval \<noteq> None then Inr retval else
    bindE (parseRelativeStringHour L mixedString) (\<lambda>retval.
      if retval \<noteq> None then Inr retval else
    bindE (parseRelativeStringDay L mixedString) (\<lambda>retval.
      if retval \<noteq> None then Inr retval else
    bindE (parseRelativeStringWeek L mixedString) (\<lambda>retval.
      if retval \<noteq> None then Inr retval else Inr None))))"

definition parseTimeStringToEpochSeconds :: "pylib \<Rightarrow> string \<Rightarrow> py_exn + int option" where
  "parseTimeStringToEpochSeconds L mixedString =
    (let retval = parseIntStringToEpochSeconds L mixedString in
     if retval \<noteq> None then Inr retval else
     bindE (parseDateTimeStringToEpochSeconds L mixedString) (\<lambda>retval.
       if retval \<noteq> None then Inr retval else
     bindE (parseRelativeStringToEpochSeconds L mixedString) (\<lambda>retval.
       if retval \<noteq> None then Inr retval else Inr None)))"

subsection \<open>Vocabulary for statements about time expressions\<close>

text \<open>
  The relative form in the words of the specification: a minus sign, one or more
  decimal digits, the unit word in the singular or the plural, and no other character.
\<close>

definition relative_form :: "string \<Rightarrow> string \<Rightarrow> bool" where
  "relative_form unit mixedString =
    (case mixedString of
       [] \<Rightarrow> False
     | c # rest \<Rightarrow>
        c = CHR ''-'' \<and> takeWhile is_digit rest \<noteq> []
        \<and> (dropWhile is_digit rest = unit \<or> dropWhile is_digit rest = unit @ ''s''))"

definition unit_words :: "string list" where
  "unit_words = [''minute'', ''hour'', ''day'', ''week'']"

text \<open>A string without the newline that may end it.\<close>

definition strip_newline :: "string \<Rightarrow> string" where
  "strip_newline s = (if s \<noteq> [] \<and> last s = CHR 0x0A then butlast s else s)"

text \<open>The text \<^verbatim>\<open>-1week\<close> followed by a newline.\<close>

definition week_newline :: string where
  "week_newline = ''-1week'' @ [CHR 0x0A]"

section \<open>A sample of the library, for evaluating the model\<close>

text \<open>
  To run the model on concrete inputs the library parameters need values. The sample
  below follows CPython 3 on text whose characters are all ASCII:
  \<^item> \<^verbatim>\<open>quote\<close> keeps letters, digits, \<^verbatim>\<open>_.-~\<close> and \<^verbatim>\<open>/\<close> and writes every other byte
    as \<^verbatim>\<open>%XX\<close>; \<^verbatim>\<open>urlencode\<close> joins \<^verbatim>\<open>quote_plus(str(k))=quote_plus(str(v))\<close> with \<^verbatim>\<open>&\<close>;
  \<^item> \<^verbatim>\<open>str\<close> of a string is the string, of a number its decimal form; containers are
    shown as \<^verbatim>\<open>repr\<close> shows them when their strings need no escaping;
  \<^item> \<^verbatim>\<open>int\<close> strips whitespace, takes an optional sign and decimal digits that single
    underscores may separate (without the limit on the number of digits that newer
    versions add);
  \<^item> every format of \<open>DATETIME_FORMATS\<close> starts with \<^verbatim>\<open>%Y\<close>, so \<^verbatim>\<open>strptime\<close> raises
    \<^verbatim>\<open>ValueError\<close> on a string that does not start with a digit; on other strings the
    sample says nothing (\<open>Unmodelled\<close>);
  \<^item> the clock stands at 1600000000 in a zone without daylight saving.
\<close>

definition digit_char :: "nat \<Rightarrow> char" where
  "digit_char n = ''0123456789'' ! n"

function str_of_nat :: "nat \<Rightarrow> string" where
  "str_of_nat n =
    (if n < 10 then [digit_char n] else str_of_nat (n div 10) @ [digit_char (n mod 10)])"
  by pat_completeness auto
termination
  by (relation "measure id") auto

declare str_of_nat.simps [simp del]

definition str_of_int :: "int \<Rightarrow> string" where
  "str_of_int i = (if i < 0 then ''-'' @ str_of_nat (nat (- i)) else str_of_nat (nat i))"

definition hex_char :: "nat \<Rightarrow> char" where
  "hex_char n = ''0123456789ABCDEF'' ! n"

definition always_safe :: "char \<Rightarrow> bool" where
  "always_safe c =
    ((CHR ''A'' \<le> c \<and> c \<le> CHR ''Z'') \<or> (CHR ''a'' \<le> c \<and> c \<le> CHR ''z'')
     \<or> is_digit c \<or> c \<in> set ''_.-~'')"

definition percent_quote :: "string \<Rightarrow> string \<Rightarrow> string" where
  "percent_quote safe s =
    concat (map (\<lambda>c. if always_safe c \<or> c \<in> set safe then [c]
                     else [CHR ''%'', hex_char (of_char c div 16), hex_char (of_char c mod 16)]) s)"

definition quote_plus :: "string \<Rightarrow> string" where
  "quote_plus s = map (\<lambda>c. if c = CHR '' '' then CHR ''+'' else c) (percent_quote '' '' s)"

fun sample_repr :: "json \<Rightarrow> string" where
  "sample_repr JNull = ''None''"
| "sample_repr (JBool b) = (if b then ''True'' else ''False'')"
| "sample_repr (JInt i) = str_of_int i"
| "sample_repr (JStr s) = [CHR 0x27] @ s @ [CHR 0x27]"
| "sample_repr (JList xs) = ''['' @ py_join '', '' (map sample_repr xs) @ '']''"
| "sample_repr (JObj d) =
     ''{'' @ py_join '', ''
              (map (\<lambda>p. [CHR 0x27] @ fst p @ [CHR 0x27] @ '': '' @ sample_repr (snd p)) d)
         @ ''}''"

definition sample_str :: "json \<Rightarrow> string" where
  "sample_str x = (case x of JStr s \<Rightarrow> s | _ \<Rightarrow> sample_repr x)"

definition sample_urlencode :: "dict \<Rightarrow> string" where
  "sample_urlencode d =
    py_join ''&'' (map (\<lambda>p. quote_plus (fst p) @ ''='' @ quote_plus (sample_str (snd p))) d)"

definition is_space :: "char \<Rightarrow> bool" where
  "is_space c =
    (c \<in> set [CHR 0x09, CHR 0x0A, CHR 0x0B, CHR 0x0C, CHR 0x0D,
               CHR 0x1C, CHR 0x1D, CHR 0x1E, CHR 0x1F, CHR '' ''])"

definition digit_val :: "char \<Rightarrow> nat" where
  "digit_val c = of_char c - 48"

fun parse_digits :: "nat \<Rightarrow> string \<Rightarrow> nat option" where
  "parse_digits acc [] = Some acc"
| "parse_digits acc (c # cs) =
    (if is_digit c then parse_digits (10 * acc + digit_val c) cs
     else if c = CHR ''_'' then
       (case cs of
          [] \<Rightarrow> None
        | d # ds \<Rightarrow> if is_digit d then parse_digits (10 * acc + digit_val d) ds else None)
     else None)"

definition sample_int :: "string \<Rightarrow> int option" where
  "sample_int s =
    (let t = rev (dropWhile is_space (rev (dropWhile is_space s)));
         neg = (t \<noteq> [] \<and> hd t = CHR ''-'');
         body = (if t \<noteq> [] \<and> (hd t = CHR ''-'' \<or> hd t = CHR ''+'') then tl t else t)
     in case body of
          [] \<Rightarrow> None
        | c # cs \<Rightarrow>
           if is_digit c
           then map_option (\<lambda>n. if neg then - int n else int n) (parse_digits (digit_val c) cs)
           else None)"

definition sample_strptime :: "string \<Rightarrow> string \<Rightarrow> py_exn + int" where
  "sample_strptime s fmt =
    (if s \<noteq> [] \<and> is_digit (hd s) then Inl Unmodelled else Inl ValueError)"

definition sample_now :: int where
  "sample_now = 1600000000"

definition sample_now_minus :: "string \<Rightarrow> int \<Rightarrow> py_exn + int" where
  "sample_now_minus keyword count =
    (if keyword = ''minutes'' then Inr (sample_now - count * 60)
     else if keyword = ''hours'' then Inr (sample_now - count * 3600)
     else if keyword = ''days'' then Inr (sample_now - count * 86400)
     else if keyword = ''weeks'' then Inr (sample_now - count * 604800)
     else Inl TypeError)"

definition sample_lib :: pylib where
  "sample_lib =
    \<lparr>quote = percent_quote ''/'', str_of = sample_str, urlencode = sample_urlencode,
     int_of = sample_int, strptime_timestamp = sample_strptime, now_minus = sample_now_minus\<rparr>"

subsection \<open>Sample pages\<close>

text \<open>
  Two linked pages: the first holds two descriptors around an item of another type and
  points to the second, which holds one descriptor and has no \<^verbatim>\<open>paging\<close>.
\<close>

definition sample_item :: "string \<Rightarrow> string \<Rightarrow> json" where
  "sample_item ident ty = JObj [(''id'', JStr ident), (''type'', JStr ty), (''name'', JStr ''n'')]"

definition page1 :: dict where
  "page1 =
    [(''data'', JList [sample_item ''1'' ''THREAT_DESCRIPTOR'', sample_item ''2'' ''MALWARE_FAMILY'',
                       sample_item ''3'' ''THREAT_DESCRIPTOR'']),
     (''paging'', JObj [(''cursors'', JObj []), (''next'', JStr ''https://next/2'')])]"

definition page2 :: dict where
  "page2 = [(''data'', JList [sample_item ''4'' ''THREAT_DESCRIPTOR''])]"

definition world_pages :: world where
  "world_pages =
    \<lparr>TE_BASE_URL = ''https://graph.facebook.com/v6.0'', APP_TOKEN = Some ''t'',
     on_get = (\<lambda>n url. if n = 0 then GetResponse (Inr (JObj page1))
                        else if n = 1 \<and> url = ''https://next/2'' then GetResponse (Inr (JObj page2))
                        else GetHTTPError 404),
     on_post = (\<lambda>n url body. PostFailure URLError),
     requests = [], delivered = []\<rparr>"

definition world_one_page :: world where
  "world_one_page = world_pages\<lparr>on_get := (\<lambda>n url. GetResponse (Inr (JObj page2)))\<rparr>"

subsection \<open>Vocabulary for statements about normalised descriptors\<close>

text \<open>The tag texts of a raw descriptor, in the order in which the response lists them.\<close>

definition raw_tag_texts :: "json \<Rightarrow> string list" where
  "raw_tag_texts raw =
    (case item_field ''tags'' raw of
       JObj t \<Rightarrow>
         (case py_get t ''data'' of
            JList tags \<Rightarrow>
              concat (map (\<lambda>tag. case item_field ''text'' tag of JStr s \<Rightarrow> [s] | _ \<Rightarrow> []) tags)
          | _ \<Rightarrow> [])
     | _ \<Rightarrow> [])"

text \<open>The \<^verbatim>\<open>tags\<close> field is a list of strings in ascending order.\<close>

definition tags_normalized :: "json \<Rightarrow> bool" where
  "tags_normalized descriptor =
    (case item_field ''tags'' descriptor of
       JList xs \<Rightarrow> (case strings_of xs of Some ss \<Rightarrow> sorted ss | None \<Rightarrow> False)
     | _ \<Rightarrow> False)"

text \<open>A raw descriptor with three tags out of order, one without tags, one with \<^verbatim>\<open>tags: null\<close>.\<close>

definition raw_tagged :: json where
  "raw_tagged =
    JObj [(''raw_indicator'', JStr ''abc''),
          (''tags'', JObj [(''data'', JList [JObj [(''id'', JStr ''7''), (''text'', JStr ''pear'')],
                                            JObj [(''id'', JStr ''8''), (''text'', JStr ''apple'')],
                                            JObj [(''id'', JStr ''9''), (''text'', JStr ''fig'')]])]),
          (''description'', JStr ''seen'')]"

definition raw_untagged :: json where
  "raw_untagged = JObj [(''raw_indicator'', JStr ''abc''), (''name'', JStr ''abc'')]"

definition raw_null_tags :: json where
  "raw_null_tags =
    JObj [(''raw_indicator'', JStr ''abc''), (''tags'', JNull), (''description'', JNull)]"

section \<open>Submitting, updating and copying a descriptor\<close>

text \<open>
  The three functions return the list \<^verbatim>\<open>[errorMessage, HTTPError, responseBody]\<close>: a
  message or \<^verbatim>\<open>None\<close>, the caught \<^verbatim>\<open>HTTPError\<close> or \<^verbatim>\<open>None\<close>, and the decoded body
  (\<open>JNull\<close> is \<^verbatim>\<open>None\<close>). Exceptions they do not catch are the \<open>Inl\<close> results.
\<close>

type_synonym mutation_result = "string option \<times> py_exn option \<times> json"

text \<open>
  \<^verbatim>\<open>_postThreatDescriptor\<close>. Every parameter is appended to the URL; a dry run returns
  the empty string as body before any request; otherwise one POST is made, and the body
  is decoded on success and on \<^verbatim>\<open>HTTPError\<close> alike.
\<close>

definition postThreatDescriptor ::
  "pylib \<Rightarrow> string \<Rightarrow> dict \<Rightarrow> bool \<Rightarrow> bool \<Rightarrow> world \<Rightarrow> (py_exn + mutation_result) \<times> world" where
  "postThreatDescriptor L url0 postParams show_urls dryRun w =
    (let url = fold (\<lambda>(key, value) u. u @ ''&'' @ key @ ''='' @ quote L (str_of L value))
                 postParams url0
     in if dryRun then (Inr (None, None, JStr []), w)
        else
          let data = urlencode L postParams;
              w' = w\<lparr>requests := requests w @ [POST url data]\<rparr>
          in case on_post w (length (requests w)) url data of
               PostResponse body \<Rightarrow>
                 (bindE body (\<lambda>responseBody. Inr (None, None, responseBody)), w')
             | PostHTTPError code body \<Rightarrow>
                 (bindE body (\<lambda>responseBody. Inr (None, Some (HTTPError code), responseBody)), w')
             | PostFailure e \<Rightarrow> (Inl e, w'))"

definition submitThreatDescriptor ::
  "pylib \<Rightarrow> dict \<Rightarrow> bool \<Rightarrow> bool \<Rightarrow> world \<Rightarrow> (py_exn + mutation_result) \<times> world" where
  "submitThreatDescriptor L postParams show_urls dryRun w =
    (case validatePostPararmsForSubmit postParams of
       Some errorMessage \<Rightarrow> (Inr (Some errorMessage, None, JNull), w)
     | None \<Rightarrow>
        (case plus_APP_TOKEN (TE_BASE_URL w @ ''/threat_descriptors'' @ ''/?access_token='') w of
           Inl e \<Rightarrow> (Inl e, w)
         | Inr url \<Rightarrow> postThreatDescriptor L url postParams show_urls dryRun w))"

text \<open>\<^verbatim>\<open>(cls.TE_BASE_URL + "/") + postParams["descriptor_id"]\<close> needs a string.\<close>

definition updateThreatDescriptor ::
  "pylib \<Rightarrow> dict \<Rightarrow> bool \<Rightarrow> bool \<Rightarrow> world \<Rightarrow> (py_exn + mutation_result) \<times> world" where
  "updateThreatDescriptor L postParams show_urls dryRun w =
    (case validatePostPararmsForUpdate postParams of
       Some errorMessage \<Rightarrow> (Inr (Some errorMessage, None, JNull), w)
     | None \<Rightarrow>
        (case bindE (py_index postParams ''descriptor_id'') (\<lambda>descriptor_id.
                case descriptor_id of
                  JStr s \<Rightarrow> plus_APP_TOKEN (TE_BASE_URL w @ ''/'' @ s @ ''/?access_token='') w
                | _ \<Rightarrow> Inl TypeError) of
           Inl e \<Rightarrow> (Inl e, w)
         | Inr url \<Rightarrow> postThreatDescriptor L url postParams show_urls dryRun w))"

text \<open>
  The middle of \<^verbatim>\<open>copyThreatDescriptor\<close>, from the deep copy of the source descriptor
  to the new \<^verbatim>\<open>postParams\<close>: the indicator is renamed, a \<^verbatim>\<open>tags\<close> that is \<^verbatim>\<open>None\<close> and
  the \<^verbatim>\<open>reactions\<close> are deleted, the caller's fields are stored over the copied ones,
  and only the recognised post-parameter names are kept. Values are immutable here, so
  the deep copy is the value itself.
\<close>

definition copy_payload :: "json \<Rightarrow> dict \<Rightarrow> py_exn + dict" where
  "copy_payload sourceDescriptor postParams =
    (case sourceDescriptor of
       JObj src \<Rightarrow>
         bindE (py_index src ''raw_indicator'') (\<lambda>raw_indicator.
         bindE (py_del (py_set src ''indicator'' raw_indicator) ''raw_indicator'') (\<lambda>nd1.
           let nd2 = (if py_in ''tags'' nd1 \<and> py_get nd1 ''tags'' = JNull
                      then AList.delete ''tags'' nd1 else nd1);
               nd3 = (if py_in ''reactions'' nd2 then AList.delete ''reactions'' nd2 else nd2);
               newDescriptor = py_update nd3 postParams
           in Inr (filter (\<lambda>(key, value). map_of POST_PARAM_NAMES key \<noteq> None) newDescriptor)))
     | _ \<Rightarrow> Inl TypeError)"

text \<open>
  \<^verbatim>\<open>copyThreatDescriptor\<close> up to the call of \<^verbatim>\<open>submitThreatDescriptor\<close>. The function
  deletes \<^verbatim>\<open>descriptor_id\<close> from the dictionary it was given, so the model returns that
  dictionary as the caller finds it afterwards (second component). The first component
  is the early return on a validation error (\<open>Inr (Inl result)\<close>), the parameters for
  the submission (\<open>Inr (Inr postParams)\<close>), or an exception.
\<close>

definition copyThreatDescriptor_prepare ::
  "pylib \<Rightarrow> dict \<Rightarrow> bool \<Rightarrow> world
     \<Rightarrow> (py_exn + (mutation_result + dict)) \<times> dict \<times> world" where
  "copyThreatDescriptor_prepare L postParams show_urls w =
    (case validatePostPararmsForCopy postParams of
       Some errorMessage \<Rightarrow> (Inr (Inl (Some errorMessage, None, JNull)), postParams, w)
     | None \<Rightarrow>
        (case py_index postParams ''descriptor_id'' of
           Inl e \<Rightarrow> (Inl e, postParams, w)
         | Inr sourceID \<Rightarrow>
            let postParams' = AList.delete ''descriptor_id'' postParams in
            (case getInfoForIDs L [sourceID] True w of
               (Inl e, w1) \<Rightarrow> (Inl e, postParams', w1)
             | (Inr [], w1) \<Rightarrow> (Inl IndexError, postParams', w1)
             | (Inr (sourceDescriptor # others), w1) \<Rightarrow>
                 (case copy_payload sourceDescriptor postParams' of
                    Inl e \<Rightarrow> (Inl e, postParams', w1)
                  | Inr newParams \<Rightarrow> (Inr (Inr newParams), postParams', w1)))))"

definition copyThreatDescriptor ::
  "pylib \<Rightarrow> dict \<Rightarrow> bool \<Rightarrow> bool \<Rightarrow> world
     \<Rightarrow> (py_exn + mutation_result) \<times> dict \<times> world" where
  "copyThreatDescriptor L postParams show_urls dryRun w =
    (case copyThreatDescriptor_prepare L postParams show_urls w of
       (Inl e, caller_params, w1) \<Rightarrow> (Inl e, caller_params, w1)
     | (Inr (Inl result), caller_params, w1) \<Rightarrow> (Inr result, caller_params, w1)
     | (Inr (Inr newParams), caller_params, w1) \<Rightarrow>
         (case submitThreatDescriptor L newParams show_urls dryRun w1 of
            (result, w2) \<Rightarrow> (result, caller_params, w2)))"

subsection \<open>Vocabulary and samples for statements about writes\<close>

text \<open>The decoded body that the remote side sent with its answer to a POST, if any.\<close>

definition post_body :: "post_outcome \<Rightarrow> json option" where
  "post_body out =
    (case out of
       PostResponse (Inr body) \<Rightarrow> Some body
     | PostHTTPError code (Inr body) \<Rightarrow> Some body
     | _ \<Rightarrow> None)"

text \<open>A complete parameter map for a submission, and one for an update.\<close>

definition submit_params :: dict where
  "submit_params =
    [(''indicator'', JStr ''abc''), (''type'', JStr ''HASH_MD5''), (''description'', JStr ''d''),
     (''share_level'', JStr ''AMBER''), (''status'', JStr ''MALICIOUS''),
     (''privacy_type'', JStr ''VISIBLE'')]"

definition update_params :: dict where
  "update_params = [(''descriptor_id'', JStr ''123''), (''description'', JStr ''d'')]"

text \<open>A remote side whose answer to every POST has the JSON body \<^verbatim>\<open>null\<close>.\<close>

definition world_null_body :: world where
  "world_null_body =
    \<lparr>TE_BASE_URL = ''https://graph.facebook.com/v6.0'', APP_TOKEN = Some ''t'',
     on_get = (\<lambda>n url. GetHTTPError 404),
     on_post = (\<lambda>n url body. PostResponse (Inr JNull)),
     requests = [], delivered = []\<rparr>"

text \<open>
  The copy of the specification's example: the descriptor 123 as the remote side
  returns it, with \<^verbatim>\<open>tags: null\<close> and a reaction, and the caller's fields.
\<close>

definition source_descriptor :: json where
  "source_descriptor =
    JObj [(''raw_indicator'', JStr ''abc''),
          (''reactions'', JObj [(''1234'', JList [JStr ''HELPFUL''])]),
          (''tags'', JNull)]"

definition world_copy :: world where
  "world_copy =
    \<lparr>TE_BASE_URL = ''https://graph.facebook.com/v6.0'', APP_TOKEN = Some ''t'',
     on_get = (\<lambda>n url. GetResponse (Inr (JObj [(''123'', source_descriptor)]))),
     on_post = (\<lambda>n url body. PostResponse (Inr (JObj [(''success'', JBool True)]))),
     requests = [], delivered = []\<rparr>"

definition copy_params :: dict where
  "copy_params =
    [(''descriptor_id'', JStr ''123''), (''description'', JStr ''d''),
     (''privacy_type'', JStr ''HAS_WHITELIST''), (''privacy_members'', JStr ''1,2'')]"

section \<open>Properties of the validators\<close>

lemma missing_filter:
  "[fieldName. Some fieldName \<leftarrow> map (\<lambda>f. if P f then Some f else None) xs] = filter P xs"
  by (induction xs) auto

lemma py_join_single: "length ms = 1 \<Longrightarrow> py_join sep ms = ms ! 0"
  by (cases ms) auto

text \<open>
  Claim C6. \<^verbatim>\<open>validatePostPararmsForSubmit\<close>: when \<^verbatim>\<open>descriptor_id\<close> is present (its
  value is not \<^verbatim>\<open>None\<close>) the result is the message that it must not be specified.
  Otherwise the result is one message that lists, in the fixed order indicator, type,
  description, share_level, status, privacy_type, exactly the required fields that are
  missing (absent or \<^verbatim>\<open>None\<close>), joined by commas; the singular and the plural message
  differ in the prefix only. The result is \<^verbatim>\<open>None\<close> if and only if \<^verbatim>\<open>descriptor_id\<close>
  is absent and all six required fields are present.
\<close>

theorem validatePostPararmsForSubmit_spec:
  "(py_get p ''descriptor_id'' \<noteq> JNull \<longrightarrow>
      validatePostPararmsForSubmit p = Some ''descriptor_id must not be specified for submit.'')
   \<and> (py_get p ''descriptor_id'' = JNull \<longrightarrow>
      validatePostPararmsForSubmit p =
        (let missing = filter (\<lambda>f. py_get p f = JNull)
               [''indicator'', ''type'', ''description'', ''share_level'', ''status'', ''privacy_type'']
         in if missing = [] then None
            else Some ((if length missing = 1 then ''Missing field '' else ''Missing fields '')
                       @ py_join '','' missing)))
   \<and> (validatePostPararmsForSubmit p = None \<longleftrightarrow>
        py_get p ''descriptor_id'' = JNull
        \<and> (\<forall>f \<in> set [''indicator'', ''type'', ''description'', ''share_level'', ''status'', ''privacy_type''].
              py_get p f \<noteq> JNull))"
proof -
  let ?req = "[''indicator'', ''type'', ''description'', ''share_level'', ''status'', ''privacy_type'']"
  let ?ms = "filter (\<lambda>f. py_get p f = JNull) ?req"
  have body: "py_get p ''descriptor_id'' = JNull \<Longrightarrow>
      validatePostPararmsForSubmit p =
        (if ?ms = [] then None
         else Some ((if length ?ms = 1 then ''Missing field '' else ''Missing fields '')
                    @ py_join '','' ?ms))"
    unfolding validatePostPararmsForSubmit_def requiredFields_def Let_def missing_filter
    by (simp only: py_join_single if_True if_False refl split: if_splits) (metis py_join_single)
  have empty: "?ms = [] \<longleftrightarrow> (\<forall>f \<in> set ?req. py_get p f \<noteq> JNull)"
    unfolding filter_empty_conv by blast
  show ?thesis
  proof (cases "py_get p ''descriptor_id'' = JNull")
    case True
    with body empty show ?thesis by (simp only: Let_def) auto
  next
    case False
    then show ?thesis by (simp add: validatePostPararmsForSubmit_def)
  qed
qed

text \<open>
  The three cases of C6 at concrete maps: a map that names a descriptor, a map with two
  of the six required fields, and a complete map.
\<close>

theorem validatePostPararmsForSubmit_spec_witness:
  "validatePostPararmsForSubmit [(''descriptor_id'', JStr ''123''), (''indicator'', JStr ''x'')]
     = Some ''descriptor_id must not be specified for submit.''
   \<and> validatePostPararmsForSubmit [(''indicator'', JStr ''x''), (''status'', JStr ''MALICIOUS'')]
     = Some ''Missing fields type,description,share_level,privacy_type''
   \<and> validatePostPararmsForSubmit
       [(''indicator'', JStr ''x''), (''type'', JStr ''URI''), (''description'', JNull),
        (''share_level'', JStr ''AMBER''), (''status'', JStr ''MALICIOUS''),
        (''privacy_type'', JStr ''VISIBLE'')]
     = Some ''Missing field description''
   \<and> validatePostPararmsForSubmit
       [(''indicator'', JStr ''x''), (''type'', JStr ''URI''), (''description'', JStr ''d''),
        (''share_level'', JStr ''AMBER''), (''status'', JStr ''MALICIOUS''),
        (''privacy_type'', JStr ''VISIBLE'')]
     = None"
proof (intro conjI)
  show "validatePostPararmsForSubmit [(''descriptor_id'', JStr ''123''), (''indicator'', JStr ''x'')]
     = Some ''descriptor_id must not be specified for submit.''"
    using validatePostPararmsForSubmit_spec
            [of "[(''descriptor_id'', JStr ''123''), (''indicator'', JStr ''x'')]"]
    by (simp add: py_get_def)
  show "validatePostPararmsForSubmit [(''indicator'', JStr ''x''), (''status'', JStr ''MALICIOUS'')]
     = Some ''Missing fields type,description,share_level,privacy_type''"
    using validatePostPararmsForSubmit_spec
            [of "[(''indicator'', JStr ''x''), (''status'', JStr ''MALICIOUS'')]"]
    by (simp add: py_get_def)
  show "validatePostPararmsForSubmit
       [(''indicator'', JStr ''x''), (''type'', JStr ''URI''), (''description'', JNull),
        (''share_level'', JStr ''AMBER''), (''status'', JStr ''MALICIOUS''),
        (''privacy_type'', JStr ''VISIBLE'')]
     = Some ''Missing field description''"
    using validatePostPararmsForSubmit_spec
            [of "[(''indicator'', JStr ''x''), (''type'', JStr ''URI''), (''description'', JNull),
        (''share_level'', JStr ''AMBER''), (''status'', JStr ''MALICIOUS''),
        (''privacy_type'', JStr ''VISIBLE'')]"]
    by (simp add: py_get_def)
  show "validatePostPararmsForSubmit
       [(''indicator'', JStr ''x''), (''type'', JStr ''URI''), (''description'', JStr ''d''),
        (''share_level'', JStr ''AMBER''), (''status'', JStr ''MALICIOUS''),
        (''privacy_type'', JStr ''VISIBLE'')]
     = None"
    using validatePostPararmsForSubmit_spec
            [of "[(''indicator'', JStr ''x''), (''type'', JStr ''URI''), (''description'', JStr ''d''),
        (''share_level'', JStr ''AMBER''), (''status'', JStr ''MALICIOUS''),
        (''privacy_type'', JStr ''VISIBLE'')]"]
    by (simp add: py_get_def)
qed

text \<open>
  Claim C2. \<^verbatim>\<open>validatePostPararmsForUpdate\<close> returns \<^verbatim>\<open>None\<close> if and only if the map
  has a non-null \<^verbatim>\<open>descriptor_id\<close> and neither a non-null \<^verbatim>\<open>indicator\<close> nor a non-null
  \<^verbatim>\<open>type\<close>. On the empty map it returns the message that the descriptor ID must be
  specified. With \<^verbatim>\<open>descriptor_id\<close> present, a present \<^verbatim>\<open>indicator\<close> gives the indicator
  message whatever \<^verbatim>\<open>type\<close> is.
\<close>

theorem validatePostPararmsForUpdate_spec:
  "(validatePostPararmsForUpdate p = None \<longleftrightarrow>
       py_get p ''descriptor_id'' \<noteq> JNull \<and> py_get p ''indicator'' = JNull
       \<and> py_get p ''type'' = JNull)
   \<and> validatePostPararmsForUpdate [] = Some ''Descriptor ID must be specified for update.''
   \<and> (py_get p ''descriptor_id'' \<noteq> JNull \<and> py_get p ''indicator'' \<noteq> JNull \<longrightarrow>
       validatePostPararmsForUpdate p = Some ''Indicator must not be specified for update.'')"
  by (simp add: validatePostPararmsForUpdate_def py_get_def)

text \<open>C2 at a map with descriptor id, indicator and type, and at a map that passes.\<close>

theorem validatePostPararmsForUpdate_spec_witness:
  "validatePostPararmsForUpdate
      [(''descriptor_id'', JStr ''1''), (''indicator'', JStr ''x''), (''type'', JStr ''URI'')]
     = Some ''Indicator must not be specified for update.''
   \<and> validatePostPararmsForUpdate
      [(''descriptor_id'', JStr ''1''), (''description'', JStr ''d'')] = None"
proof (intro conjI)
  show "validatePostPararmsForUpdate
      [(''descriptor_id'', JStr ''1''), (''indicator'', JStr ''x''), (''type'', JStr ''URI'')]
     = Some ''Indicator must not be specified for update.''"
    using validatePostPararmsForUpdate_spec
      [of "[(''descriptor_id'', JStr ''1''), (''indicator'', JStr ''x''), (''type'', JStr ''URI'')]"]
    by (simp add: py_get_def)
  show "validatePostPararmsForUpdate
      [(''descriptor_id'', JStr ''1''), (''description'', JStr ''d'')] = None"
    using validatePostPararmsForUpdate_spec
      [of "[(''descriptor_id'', JStr ''1''), (''description'', JStr ''d'')]"]
    by (simp add: py_get_def)
qed

section \<open>Properties of getJSONFromURL\<close>

lemma loop_step:
  "getJSONFromURL_loop url t w =
    (case on_get w (length (requests w)) url of
       GetResponse body \<Rightarrow> (body, sent 1 url w)
     | GetFailure e \<Rightarrow> (Inl e, sent 1 url w)
     | GetHTTPError code \<Rightarrow>
         if code < 500 \<or> code \<ge> 600 \<or> t \<ge> 4
         then (Inl (HTTPError code), sent 1 url w)
         else getJSONFromURL_loop url (Suc t) (sent 1 url w))"
  by (subst getJSONFromURL_loop.simps)
     (auto simp: tryGET_def Let_def sent_def split: get_outcome.splits)

lemma sent_sent: "sent m url (sent n url w) = sent (n + m) url w"
  by (simp add: sent_def replicate_add)

lemma sent_fields [simp]:
  "on_get (sent n url w) = on_get w"
  "requests (sent n url w) = requests w @ replicate n (GET url)"
  "delivered (sent n url w) = delivered w"
  "APP_TOKEN (sent n url w) = APP_TOKEN w"
  "TE_BASE_URL (sent n url w) = TE_BASE_URL w"
  "on_post (sent n url w) = on_post w"
  by (simp_all add: sent_def)

text \<open>
  From any try count up to 4, the loop makes between one and \<open>5 - t\<close> requests, all of
  the same URL, and every request but the last was answered by a server error.
\<close>

lemma loop_requests:
  "\<exists>n\<ge>1. n \<le> 5 - t \<and> snd (getJSONFromURL_loop url t w) = sent n url w
     \<and> (\<forall>i<n - 1. server_error (on_get w (length (requests w) + i) url))" if "t \<le> 4"
  using that
proof (induction "4 - t" arbitrary: t w)
  case 0
  then have t: "t \<ge> 4" by simp
  show ?case
    apply (rule exI[of _ 1])
    using t 0 by (subst loop_step) (auto split: get_outcome.splits)
next
  case (Suc k)
  then have t: "t < 4" and k: "k = 4 - Suc t" by simp_all
  show ?case
  proof (cases "on_get w (length (requests w)) url")
    case (GetHTTPError code)
    show ?thesis
    proof (cases "code < 500 \<or> code \<ge> 600")
      case True
      then show ?thesis
        apply (intro exI[of _ 1])
        using t by (subst loop_step) (auto simp: GetHTTPError)
    next
      case False
      from t have t': "Suc t \<le> 4" by simp
      from Suc.hyps(1)[OF k t', of "sent 1 url w"]
      obtain n where n: "n \<ge> 1" "n \<le> 5 - Suc t"
        "snd (getJSONFromURL_loop url (Suc t) (sent 1 url w)) = sent n url (sent 1 url w)"
        "\<forall>i<n - 1. server_error (on_get w (Suc (length (requests w)) + i) url)"
        by auto
      have first: "server_error (on_get w (length (requests w)) url)"
        using False by (simp add: GetHTTPError server_error_def)
      have all: "\<forall>i<Suc n - 1. server_error (on_get w (length (requests w) + i) url)"
      proof (intro allI impI)
        fix i assume "i < Suc n - 1"
        then show "server_error (on_get w (length (requests w) + i) url)"
          using first n(4) by (cases i) auto
      qed
      have res: "snd (getJSONFromURL_loop url t w) = sent (Suc n) url w"
        by (subst loop_step) (use False t n(3) in \<open>simp add: GetHTTPError sent_sent\<close>)
      show ?thesis
        apply (intro exI[of _ "Suc n"])
        using n(1,2) t res all by auto
    qed
  qed (intro exI[of _ 1], subst loop_step, use t in simp)+
qed

text \<open>While the answers are server errors and tries remain, the loop goes on.\<close>

lemma loop_prefix:
  "(\<forall>i<k. server_error (on_get w (length (requests w) + i) url)) \<Longrightarrow> t + k \<le> 4 \<Longrightarrow>
   getJSONFromURL_loop url t w = getJSONFromURL_loop url (t + k) (sent k url w)"
proof (induction k arbitrary: t w)
  case 0
  then show ?case by (simp add: sent_def)
next
  case (Suc k)
  from Suc.prems(1) have first: "server_error (on_get w (length (requests w)) url)"
    by (metis add.right_neutral zero_less_Suc)
  have rest: "\<forall>i<k. server_error (on_get (sent 1 url w) (length (requests (sent 1 url w)) + i) url)"
    using Suc.prems(1) by auto
  have "getJSONFromURL_loop url t w = getJSONFromURL_loop url (Suc t) (sent 1 url w)"
    by (subst loop_step) (use first Suc.prems(2) in \<open>auto simp: server_error_def split: get_outcome.splits\<close>)
  also have "\<dots> = getJSONFromURL_loop url (Suc t + k) (sent k url (sent 1 url w))"
    using Suc.IH[OF rest] Suc.prems(2) by simp
  finally show ?case by (simp add: sent_sent)
qed

text \<open>
  Claim C4. For every read through \<^verbatim>\<open>getJSONFromURL\<close>, with \<open>on_get w (length (requests w) + i) url\<close>
  the answer to its attempt number \<open>i\<close>:
  \<^item> a server error (status 500 to 599) on each of the attempts \<open>0..k\<close>, \<open>k < 4\<close>, is followed
    by one more attempt;
  \<^item> server errors on all of the first five attempts end the call after exactly five
    requests of the same URL, raising the error of the fifth;
  \<^item> an error status outside 500 to 599 on the first attempt is raised at once, after
    exactly one request;
  \<^item> in every case the call makes between one and five requests, all of the same URL,
    and each attempt but the last was answered by a server error.
\<close>

theorem getJSONFromURL_retry:
  "(\<forall>k<4. (\<forall>i\<le>k. server_error (on_get w (length (requests w) + i) url)) \<longrightarrow>
       length (requests w) + k + 2 \<le> length (requests (snd (getJSONFromURL url w))))
   \<and> ((\<forall>i<5. server_error (on_get w (length (requests w) + i) url)) \<longrightarrow>
       (\<exists>code. on_get w (length (requests w) + 4) url = GetHTTPError code
          \<and> getJSONFromURL url w = (Inl (HTTPError code), sent 5 url w)))
   \<and> (\<forall>code. on_get w (length (requests w)) url = GetHTTPError code \<and> (code < 500 \<or> 600 \<le> code) \<longrightarrow>
         getJSONFromURL url w = (Inl (HTTPError code), sent 1 url w))
   \<and> (\<exists>n. 1 \<le> n \<and> n \<le> 5 \<and> snd (getJSONFromURL url w) = sent n url w
          \<and> (\<forall>i<n - 1. server_error (on_get w (length (requests w) + i) url)))"
proof (intro conjI allI impI)
  fix k :: nat
  assume k: "k < 4" and err: "\<forall>i\<le>k. server_error (on_get w (length (requests w) + i) url)"
  have "getJSONFromURL url w = getJSONFromURL_loop url (Suc k) (sent (Suc k) url w)"
    unfolding getJSONFromURL_def
    using loop_prefix[of "Suc k" w url 0] err k by (simp add: less_Suc_eq_le)
  moreover obtain n where "n \<ge> 1"
      "snd (getJSONFromURL_loop url (Suc k) (sent (Suc k) url w)) = sent n url (sent (Suc k) url w)"
    using loop_requests[of "Suc k" url "sent (Suc k) url w"] k by auto
  ultimately show "length (requests w) + k + 2 \<le> length (requests (snd (getJSONFromURL url w)))"
    by simp
next
  assume err: "\<forall>i<5. server_error (on_get w (length (requests w) + i) url)"
  then have "server_error (on_get w (length (requests w) + 4) url)" by simp
  then obtain code where code: "on_get w (length (requests w) + 4) url = GetHTTPError code"
      "500 \<le> code" "code < 600"
    by (auto simp: server_error_def split: get_outcome.splits)
  have "getJSONFromURL url w = getJSONFromURL_loop url 4 (sent 4 url w)"
    unfolding getJSONFromURL_def
    using loop_prefix[of 4 w url 0] err by simp
  also have "\<dots> = (Inl (HTTPError code), sent 5 url w)"
    by (subst loop_step) (simp add: code sent_sent)
  finally show "\<exists>code. on_get w (length (requests w) + 4) url = GetHTTPError code
          \<and> getJSONFromURL url w = (Inl (HTTPError code), sent 5 url w)"
    using code(1) by blast
next
  fix code
  assume "on_get w (length (requests w)) url = GetHTTPError code \<and> (code < 500 \<or> 600 \<le> code)"
  then show "getJSONFromURL url w = (Inl (HTTPError code), sent 1 url w)"
    unfolding getJSONFromURL_def by (subst loop_step) auto
next
  show "\<exists>n. 1 \<le> n \<and> n \<le> 5 \<and> snd (getJSONFromURL url w) = sent n url w
          \<and> (\<forall>i<n - 1. server_error (on_get w (length (requests w) + i) url))"
    unfolding getJSONFromURL_def using loop_requests[of 0 url w] by auto
qed

text \<open>
  C4 at a remote side that always answers 503 (five requests, then the error is raised)
  and at one that answers 404 (one request).
\<close>

theorem getJSONFromURL_retry_witness:
  "getJSONFromURL ''u'' world503 = (Inl (HTTPError 503), sent 5 ''u'' world503)
   \<and> requests (sent 5 ''u'' world503) = [GET ''u'', GET ''u'', GET ''u'', GET ''u'', GET ''u'']
   \<and> getJSONFromURL ''u'' world404 = (Inl (HTTPError 404), sent 1 ''u'' world404)
   \<and> requests (sent 1 ''u'' world404) = [GET ''u'']"
proof (intro conjI)
  show "getJSONFromURL ''u'' world503 = (Inl (HTTPError 503), sent 5 ''u'' world503)"
    using getJSONFromURL_retry[of world503 "''u''"]
    by (simp add: world503_def server_error_def)
  show "getJSONFromURL ''u'' world404 = (Inl (HTTPError 404), sent 1 ''u'' world404)"
    using getJSONFromURL_retry[of world404 "''u''"]
    by (simp add: world404_def world503_def)
  show "requests (sent 5 ''u'' world503) = [GET ''u'', GET ''u'', GET ''u'', GET ''u'', GET ''u'']"
    by (simp add: world503_def eval_nat_numeral)
  show "requests (sent 1 ''u'' world404) = [GET ''u'']"
    by (simp add: world404_def world503_def)
qed

section \<open>Properties of processDescriptorIDsByTagID\<close>

lemma bindE_simps [simp]:
  "bindE (Inl e) f = Inl e" "bindE (Inr a) f = f a"
  by (simp_all add: bindE_def)

lemma collect_ids_wf:
  "list_all wf_item items \<Longrightarrow>
   collect_ids inc items ids =
     Inr (ids @ map (item_field ''id'')
            (filter (\<lambda>item. item_field ''type'' item = JStr THREAT_DESCRIPTOR) items))"
proof (induction items arbitrary: ids)
  case Nil
  then show ?case by simp
next
  case (Cons item items)
  from Cons.prems have rest: "list_all wf_item items" and "wf_item item" by simp_all
  then obtain d where d: "item = JObj d" "py_in ''id'' d" "py_in ''type'' d" "py_in ''name'' d"
    by (auto simp: wf_item_def split: json.splits)
  from d obtain vi vt vn where v: "map_of d ''id'' = Some vi" "map_of d ''type'' = Some vt"
      "map_of d ''name'' = Some vn"
    by (auto simp: py_in_def)
  have sub: "py_subscript (JObj d) ''id'' = Inr vi" "py_subscript (JObj d) ''type'' = Inr vt"
      "py_subscript (JObj d) ''name'' = Inr vn" "py_del d ''name'' = Inr (AList.delete ''name'' d)"
    using d v by (simp_all add: py_subscript_def py_index_def py_del_def)
  have fld: "item_field ''id'' (JObj d) = vi" "item_field ''type'' (JObj d) = vt"
    using v by (simp_all add: item_field_def py_get_def)
  show ?case
    using Cons.IH[OF rest] by (simp add: sub fld d(1))
qed

lemma getJSONFromURL_response:
  "on_get w (length (requests w)) url = GetResponse body \<Longrightarrow>
   getJSONFromURL url w = (body, sent 1 url w)"
  unfolding getJSONFromURL_def
  by (subst getJSONFromURL_loop.simps) (simp add: tryGET_def sent_def)

lemma next_url_wf:
  "wf_page r \<Longrightarrow> next_url (JObj r) = Inr (case page_next r of None \<Rightarrow> JNull | Some u \<Rightarrow> u)"
  by (auto simp: wf_page_def next_url_def py_contains_def py_in_def py_subscript_def py_index_def
        page_next_def split: option.splits json.splits)

lemma callback_fields [simp]:
  "on_get (callback b w) = on_get w"
  "requests (callback b w) = requests w"
  "delivered (callback b w) = delivered w @ [b]"
  by (simp_all add: callback_def)

lemma loop_pages:
  "linked (on_get w) (length (requests w)) url rs \<Longrightarrow> length rs \<le> fuel \<Longrightarrow>
   \<exists>w'. processDescriptorIDsByTagID_loop fuel inc (JStr url) w = Some (Inr (), w')
        \<and> delivered w' = delivered w @ map page_ids rs
        \<and> length (requests w') = length (requests w) + length rs"
proof (induction rs arbitrary: w url fuel)
  case Nil
  then show ?case by simp
next
  case (Cons r rs)
  from Cons.prems(2) obtain fuel' where fuel: "fuel = Suc fuel'" "length rs \<le> fuel'"
    by (cases fuel) auto
  from Cons.prems(1) have resp: "on_get w (length (requests w)) url = GetResponse (Inr (JObj r))"
    and wf: "wf_page r" by simp_all
  from wf obtain items where items: "page_items r = Some items" "list_all wf_item items"
    by (auto simp: wf_page_def split: option.splits)
  then have data: "py_subscript (JObj r) ''data'' = Inr (JList items)"
    by (auto simp: page_items_def py_subscript_def py_index_def split: option.splits json.splits)
  let ?w1 = "callback (page_ids r) (sent 1 url w)"
  have step: "processDescriptorIDsByTagID_loop fuel inc (JStr url) w =
      processDescriptorIDsByTagID_loop fuel' inc
        (case page_next r of None \<Rightarrow> JNull | Some u \<Rightarrow> u) ?w1"
    using fuel(1) getJSONFromURL_response[OF resp] data next_url_wf[OF wf]
      collect_ids_wf[OF items(2), of inc "[]"] items(1)
    by (simp add: getJSONFromURL_json_def py_iter_def page_ids_def)
  show ?case
  proof (cases rs)
    case Nil
    with Cons.prems(1) have "page_next r = None" by simp
    then show ?thesis using step Nil by simp
  next
    case (Cons r' rs')
    with Cons.prems(1) obtain u where u: "page_next r = Some (JStr u)"
       "linked (on_get w) (Suc (length (requests w))) u rs"
      by (auto split: option.splits json.splits)
    have "linked (on_get ?w1) (length (requests ?w1)) u rs" using u(2) by simp
    from Cons.IH[OF this fuel(2), of ] obtain w' where
      "processDescriptorIDsByTagID_loop fuel' inc (JStr u) ?w1 = Some (Inr (), w')"
      "delivered w' = delivered ?w1 @ map page_ids rs"
      "length (requests w') = length (requests ?w1) + length rs"
      by blast
    then show ?thesis using step u(1) by simp
  qed
qed


text \<open>
  Claim C5. Let the remote side answer the start URL and then each \<^verbatim>\<open>paging.next\<close>
  URL with the pages \<open>rs\<close>, \<open>N = length rs\<close> of them, each of the documented shape and
  the last one without \<^verbatim>\<open>paging.next\<close>. Then \<^verbatim>\<open>processDescriptorIDsByTagID\<close> returns
  (any fuel of at least \<open>N\<close> is enough), it has made \<open>N\<close> requests and has invoked the
  callback exactly \<open>N\<close> times, in page order, the call for a page receiving the ids of
  the items of that page whose type is \<^verbatim>\<open>THREAT_DESCRIPTOR\<close>, in the order of the page.
  For \<open>N = 1\<close>: a first response without \<^verbatim>\<open>paging.next\<close> ends the loop after one call.
\<close>

theorem processDescriptorIDsByTagID_pages:
  assumes "tagged_objects_startURL L tagID opts w = Inr startURL"
    and "linked (on_get w) (length (requests w)) startURL rs"
    and "length rs \<le> fuel"
  shows "\<exists>w'. processDescriptorIDsByTagID L fuel tagID opts w = Some (Inr (), w')
          \<and> delivered w' = delivered w @ map page_ids rs
          \<and> length (delivered w') = length (delivered w) + length rs
          \<and> length (requests w') = length (requests w) + length rs"
proof -
  from loop_pages[OF assms(2,3), of "includeIndicatorInOutput opts"]
  obtain w' where "processDescriptorIDsByTagID_loop fuel (includeIndicatorInOutput opts) (JStr startURL) w
        = Some (Inr (), w')"
    "delivered w' = delivered w @ map page_ids rs"
    "length (requests w') = length (requests w) + length rs"
    by blast
  then show ?thesis
    using assms(1) by (simp add: processDescriptorIDsByTagID_def)
qed

text \<open>The hypotheses of C5 at the sample pages.\<close>

lemma sample_startURL:
  "tagged_objects_startURL sample_lib ''99'' default_options world_pages
     = Inr ''https://graph.facebook.com/v6.0/99/tagged_objects/?access_token=t&limit=10''"
  by (simp add: tagged_objects_startURL_def plus_APP_TOKEN_def world_pages_def default_options_def
        sample_lib_def sample_str_def str_of_int_def str_of_nat.simps digit_char_def)

lemma sample_startURL_one:
  "tagged_objects_startURL sample_lib ''99'' default_options world_one_page
     = Inr ''https://graph.facebook.com/v6.0/99/tagged_objects/?access_token=t&limit=10''"
  by (simp add: tagged_objects_startURL_def plus_APP_TOKEN_def world_pages_def world_one_page_def
        default_options_def
        sample_lib_def sample_str_def str_of_int_def str_of_nat.simps digit_char_def)

lemma wf_sample_pages: "wf_page page1" "wf_page page2"
  by (simp_all add: wf_page_def page_items_def page1_def page2_def wf_item_def sample_item_def py_in_def)

lemma sample_page_ids:
  "page_ids page1 = [JStr ''1'', JStr ''3'']" "page_ids page2 = [JStr ''4'']"
  by (simp_all add: page_ids_def page_items_def page1_def page2_def item_field_def sample_item_def
        py_get_def THREAT_DESCRIPTOR_def)

lemma sample_page_next:
  "page_next page1 = Some (JStr ''https://next/2'')" "page_next page2 = None"
  by (simp_all add: page_next_def page1_def page2_def)

lemma sample_linked:
  "linked (on_get world_pages) (length (requests world_pages))
     ''https://graph.facebook.com/v6.0/99/tagged_objects/?access_token=t&limit=10'' [page1, page2]"
  by (simp add: wf_sample_pages sample_page_next world_pages_def)

lemma sample_linked_one:
  "linked (on_get world_one_page) (length (requests world_one_page))
     ''https://graph.facebook.com/v6.0/99/tagged_objects/?access_token=t&limit=10'' [page2]"
  by (simp add: wf_sample_pages sample_page_next world_one_page_def world_pages_def)

text \<open>
  C5 on the two sample pages (two callbacks, the item of another type filtered out) and
  on a single page without \<^verbatim>\<open>paging\<close> (one callback).
\<close>

theorem processDescriptorIDsByTagID_pages_witness:
  "map_option (\<lambda>(r, w'). (r, delivered w'))
      (processDescriptorIDsByTagID sample_lib 2 ''99'' default_options world_pages)
     = Some (Inr (), [[JStr ''1'', JStr ''3''], [JStr ''4'']])
   \<and> map_option (\<lambda>(r, w'). (r, delivered w'))
      (processDescriptorIDsByTagID sample_lib 1 ''99'' default_options world_one_page)
     = Some (Inr (), [[JStr ''4'']])"
proof (intro conjI)
  have d: "delivered world_pages = []" "delivered world_one_page = []"
    by (simp_all add: world_pages_def world_one_page_def)
  show "map_option (\<lambda>(r, w'). (r, delivered w'))
      (processDescriptorIDsByTagID sample_lib 2 ''99'' default_options world_pages)
     = Some (Inr (), [[JStr ''1'', JStr ''3''], [JStr ''4'']])"
    using processDescriptorIDsByTagID_pages[OF sample_startURL sample_linked, of 2]
    by (auto simp: d sample_page_ids)
  show "map_option (\<lambda>(r, w'). (r, delivered w'))
      (processDescriptorIDsByTagID sample_lib 1 ''99'' default_options world_one_page)
     = Some (Inr (), [[JStr ''4'']])"
    using processDescriptorIDsByTagID_pages[OF sample_startURL_one sample_linked_one, of 1]
    by (auto simp: d sample_page_ids)
qed

section \<open>Properties of the normalised tags\<close>

lemma strings_of_Some: "strings_of xs = Some ss \<Longrightarrow> xs = map JStr ss"
proof (induction xs arbitrary: ss)
  case Nil then show ?case by simp
next
  case (Cons x xs)
  then show ?case by (cases x) auto
qed

lemma strings_of_map [simp]: "strings_of (map JStr ss) = Some ss"
  by (induction ss) auto

lemma tag_texts_strings:
  "tag_texts tags = Inr texts \<Longrightarrow> strings_of texts = Some ss \<Longrightarrow>
   ss = concat (map (\<lambda>tag. case item_field ''text'' tag of JStr s \<Rightarrow> [s] | _ \<Rightarrow> []) tags)"
proof (induction tags arbitrary: texts ss)
  case Nil
  then show ?case by simp
next
  case (Cons tag tags)
  from Cons.prems(1) obtain t ts where t: "py_subscript tag ''text'' = Inr t"
      and ts: "tag_texts tags = Inr ts" and texts: "texts = t # ts"
    by (auto simp: bindE_def split: sum.splits)
  from Cons.prems(2) texts obtain s ss' where s: "t = JStr s" "strings_of ts = Some ss'" "ss = s # ss'"
    by (cases t) auto
  from t s(1) have "item_field ''text'' tag = JStr s"
    by (auto simp: py_subscript_def py_index_def item_field_def py_get_def split: json.splits option.splits)
  then show ?case using Cons.IH[OF ts s(2)] s(3) by simp
qed

lemma tag_texts_strs: "tag_texts (map (\<lambda>c. JStr (f c)) xs) = Inr texts \<Longrightarrow> xs = []"
  by (cases xs) (auto simp: py_subscript_def)

lemma canonical_tags_sorted:
  assumes "canonical_tags (py_get d ''tags'') = Inr v"
  shows "v = JList (map JStr (sort (raw_tag_texts (JObj d))))"
proof (cases "py_get d ''tags'' = JNull")
  case True
  with assms show ?thesis
    by (simp add: canonical_tags_def py_iter_def py_sorted_def raw_tag_texts_def item_field_def)
next
  case False
  with assms obtain data tag_list texts sorted_texts where
    data: "py_subscript (py_get d ''tags'') ''data'' = Inr data"
    and it: "py_iter data = Inr tag_list"
    and tt: "tag_texts tag_list = Inr texts"
    and so: "py_sorted texts = Inr sorted_texts"
    and v: "v = JList sorted_texts"
    by (auto simp: canonical_tags_def bindE_def split: sum.splits)
  from so obtain ss where ss: "strings_of texts = Some ss" "sorted_texts = map JStr (sort ss)"
    by (auto simp: py_sorted_def split: option.splits)
  from data obtain t where t: "py_get d ''tags'' = JObj t" "py_get t ''data'' = data"
    by (auto simp: py_subscript_def py_index_def py_get_def split: json.splits option.splits)
  have "ss = raw_tag_texts (JObj d)"
  proof (cases data)
    case (JList tags)
    with it have "tag_list = tags" by (simp add: py_iter_def)
    with tag_texts_strings[OF tt ss(1)] show ?thesis
      using t JList by (simp add: raw_tag_texts_def item_field_def)
  next
    case (JStr s)
    with it have "tag_list = map (\<lambda>c. JStr [c]) s" by (simp add: py_iter_def)
    with tt have "tag_list = []" using tag_texts_strs[of "\<lambda>c. [c]" s texts] by simp
    with tt ss(1) show ?thesis using t JStr by (simp add: raw_tag_texts_def item_field_def)
  next
    case (JObj o2)
    with it have "tag_list = map (\<lambda>p. JStr (fst p)) o2"
      by (auto simp: py_iter_def case_prod_beta)
    with tt have "tag_list = []" using tag_texts_strs[of fst o2 texts] by simp
    with tt ss(1) show ?thesis using t JObj by (simp add: raw_tag_texts_def item_field_def)
  qed (use it in \<open>simp_all add: py_iter_def\<close>)
  with v ss(2) show ?thesis by simp
qed

lemma py_get_set: "py_get (py_set d k v) k' = (if k' = k then v else py_get d k')"
  by (simp add: py_get_def py_set_def update_conv')

lemma py_get_normalize_description:
  "k \<noteq> ''description'' \<Longrightarrow> py_get (normalize_description d) k = py_get d k"
  by (simp add: normalize_description_def py_get_set)

lemma normalize_descriptor_tags:
  assumes "normalize_descriptor raw = Inr d'"
  shows "item_field ''tags'' d' = JList (map JStr (sort (raw_tag_texts raw)))"
proof -
  from assms obtain d v where d: "raw = JObj d" "canonical_tags (py_get d ''tags'') = Inr v"
      "d' = JObj (normalize_description (py_set d ''tags'' v))"
    by (auto simp: normalize_descriptor_def bindE_def split: json.splits sum.splits)
  from canonical_tags_sorted[OF d(2)] d(1,3) show ?thesis
    by (simp add: item_field_def py_get_normalize_description py_get_set)
qed

lemma py_delitem_field:
  "py_delitem raw k = Inr raw1 \<Longrightarrow> k' \<noteq> k \<Longrightarrow> item_field k' raw1 = item_field k' raw"
  by (auto simp: py_delitem_def py_del_def bindE_def item_field_def py_get_def delete_conv'
      split: json.splits if_splits)

lemma raw_tag_texts_cong:
  "item_field ''tags'' a = item_field ''tags'' b \<Longrightarrow> raw_tag_texts a = raw_tag_texts b"
  by (simp add: raw_tag_texts_def)

lemma tags_normalized_sorted:
  "item_field ''tags'' d' = JList (map JStr (sort ss)) \<Longrightarrow> tags_normalized d'"
  by (simp add: tags_normalized_def)

lemma item_tags:
  "getInfoForIDs_item inc raw = Inr d' \<Longrightarrow>
     item_field ''tags'' d' = JList (map JStr (sort (raw_tag_texts raw)))"
  "doPowerSearch_item inc raw = Inr d' \<Longrightarrow>
     item_field ''tags'' d' = JList (map JStr (sort (raw_tag_texts raw)))"
proof -
  assume "getInfoForIDs_item inc raw = Inr d'"
  then obtain raw1 where r: "normalize_descriptor raw1 = Inr d'"
      "item_field ''tags'' raw1 = item_field ''tags'' raw"
    by (auto simp: getInfoForIDs_item_def bindE_def py_delitem_field split: if_splits sum.splits)
  from normalize_descriptor_tags[OF r(1)] raw_tag_texts_cong[OF r(2)]
  show "item_field ''tags'' d' = JList (map JStr (sort (raw_tag_texts raw)))" by simp
next
  assume "doPowerSearch_item inc raw = Inr d'"
  then obtain raw1 where r: "normalize_descriptor raw1 = Inr d'"
      "item_field ''tags'' raw1 = item_field ''tags'' raw"
    by (auto simp: doPowerSearch_item_def bindE_def py_delitem_field split: if_splits sum.splits)
  from normalize_descriptor_tags[OF r(1)] raw_tag_texts_cong[OF r(2)]
  show "item_field ''tags'' d' = JList (map JStr (sort (raw_tag_texts raw)))" by simp
qed


lemma getInfoForIDs_items_tags:
  "getInfoForIDs_items inc r = Inr ds \<Longrightarrow> list_all tags_normalized ds"
proof (induction r arbitrary: ds)
  case Nil
  then show ?case by simp
next
  case (Cons p r)
  obtain k raw where p: "p = (k, raw)" by (cases p)
  from Cons.prems p obtain d' ds' where
    "getInfoForIDs_item inc raw = Inr d'" "getInfoForIDs_items inc r = Inr ds'" "ds = d' # ds'"
    by (auto simp: bindE_def split: sum.splits)
  then show ?case using Cons.IH item_tags(1) tags_normalized_sorted by auto
qed

lemma doPowerSearch_items_tags:
  "doPowerSearch_items inc items = Inr ds \<Longrightarrow> list_all tags_normalized ds"
proof (induction items arbitrary: ds)
  case Nil
  then show ?case by simp
next
  case (Cons raw items)
  from Cons.prems obtain d' ds' where
    "doPowerSearch_item inc raw = Inr d'" "doPowerSearch_items inc items = Inr ds'" "ds = d' # ds'"
    by (auto simp: bindE_def split: sum.splits)
  then show ?case using Cons.IH item_tags(2) tags_normalized_sorted by auto
qed

lemma getJSONFromURL_delivered: "delivered (snd (getJSONFromURL url w)) = delivered w"
  using loop_requests[of 0 url w] by (auto simp: getJSONFromURL_def)

lemma getJSONFromURL_json_delivered: "delivered (snd (getJSONFromURL_json url w)) = delivered w"
  by (cases url) (simp_all add: getJSONFromURL_json_def getJSONFromURL_delivered)

lemma doPowerSearch_loop_tags:
  "doPowerSearch_loop fuel inc nextURL w = Some (r, w') \<Longrightarrow>
   \<exists>bs. delivered w' = delivered w @ bs \<and> list_all (list_all tags_normalized) bs"
proof (induction fuel arbitrary: nextURL w)
  case 0
  then show ?case by (auto split: if_splits)
next
  case (Suc fuel)
  show ?case
  proof (cases "nextURL = JNull")
    case True
    with Suc.prems show ?thesis by auto
  next
    case False
    obtain res w1 where g: "getJSONFromURL_json nextURL w = (res, w1)" by (cases "getJSONFromURL_json nextURL w")
    then have w1: "delivered w1 = delivered w"
      using getJSONFromURL_json_delivered[of nextURL w] by simp
    show ?thesis
    proof (cases res)
      case (Inl e)
      with Suc.prems False g w1 show ?thesis by auto
    next
      case (Inr response)
      let ?page = "bindE (py_subscript response ''data'') (\<lambda>data.
                  bindE (next_url response) (\<lambda>nextURL'.
                  bindE (py_iter data) (\<lambda>items.
                  bindE (doPowerSearch_items inc items) (\<lambda>descriptors.
                    Inr (descriptors, nextURL')))))"
      show ?thesis
      proof (cases ?page)
        case (Inl e)
        with Suc.prems False g w1 Inr show ?thesis by auto
      next
        case page: (Inr pr)
        obtain descriptors nextURL' where pr: "pr = (descriptors, nextURL')" by (cases pr)
        from page pr obtain items where "doPowerSearch_items inc items = Inr descriptors"
          by (auto simp: bindE_def split: sum.splits)
        then have ok: "list_all tags_normalized descriptors" by (rule doPowerSearch_items_tags)
        from Suc.prems False g Inr page pr
        have "doPowerSearch_loop fuel inc nextURL' (callback descriptors w1) = Some (r, w')"
          by simp
        from Suc.IH[OF this] obtain bs where
          "delivered w' = delivered (callback descriptors w1) @ bs"
          "list_all (list_all tags_normalized) bs" by blast
        then show ?thesis using ok w1 by (intro exI[of _ "descriptors # bs"]) simp
      qed
    qed
  qed
qed

text \<open>
  Claim C7. For every raw descriptor that the loop body of \<^verbatim>\<open>getInfoForIDs\<close> or of
  \<^verbatim>\<open>doPowerSearch\<close> processes without raising, the \<^verbatim>\<open>tags\<close> field of the result is a
  list (never \<^verbatim>\<open>None\<close>, never absent): the tag texts of the raw descriptor, as strings,
  sorted ascending in the order of strings. When the raw \<^verbatim>\<open>tags\<close> is \<^verbatim>\<open>None\<close> or absent
  the result is the empty list. Hence every descriptor that \<^verbatim>\<open>getInfoForIDs\<close> returns,
  and every descriptor of every batch that \<^verbatim>\<open>doPowerSearch\<close> hands to its callback, has
  a sorted list of strings under \<^verbatim>\<open>tags\<close>.
\<close>

theorem normalized_tags:
  "(getInfoForIDs_item inc raw = Inr d' \<or> doPowerSearch_item inc raw = Inr d' \<longrightarrow>
      item_field ''tags'' d' = JList (map JStr (sort (raw_tag_texts raw)))
      \<and> tags_normalized d'
      \<and> (item_field ''tags'' raw = JNull \<longrightarrow> item_field ''tags'' d' = JList []))
   \<and> (getInfoForIDs L ids inc w = (Inr ds, w') \<longrightarrow> list_all tags_normalized ds)
   \<and> (doPowerSearch L fuel urlParams opts w = Some (r, w'') \<longrightarrow>
        list_all (list_all tags_normalized) (drop (length (delivered w)) (delivered w'')))"
proof (intro conjI impI)
  assume a: "getInfoForIDs_item inc raw = Inr d' \<or> doPowerSearch_item inc raw = Inr d'"
  then show t: "item_field ''tags'' d' = JList (map JStr (sort (raw_tag_texts raw)))"
    using item_tags by blast
  then show "tags_normalized d'" by (rule tags_normalized_sorted)
  assume "item_field ''tags'' raw = JNull"
  then show "item_field ''tags'' d' = JList []" using t by (simp add: raw_tag_texts_def)
next
  assume a: "getInfoForIDs L ids inc w = (Inr ds, w')"
  then obtain rr where "getInfoForIDs_items inc rr = Inr ds"
    by (auto simp: getInfoForIDs_def split: sum.splits prod.splits json.splits)
  then show "list_all tags_normalized ds" by (rule getInfoForIDs_items_tags)
next
  assume a: "doPowerSearch L fuel urlParams opts w = Some (r, w'')"
  show "list_all (list_all tags_normalized) (drop (length (delivered w)) (delivered w''))"
  proof (cases "plus_APP_TOKEN (TE_BASE_URL w @ ''/threat_descriptors'' @ ''/?access_token='') w")
    case (Inl e)
    with a show ?thesis by (auto simp: doPowerSearch_def)
  next
    case (Inr u0)
    with a obtain u where "doPowerSearch_loop fuel (includeIndicatorInOutput opts) (JStr u) w = Some (r, w'')"
      by (auto simp: doPowerSearch_def Let_def)
    from doPowerSearch_loop_tags[OF this] show ?thesis by auto
  qed
qed


text \<open>
  C7 at a descriptor with the tags pear, apple, fig, at one without a \<^verbatim>\<open>tags\<close> field and
  at one whose \<^verbatim>\<open>tags\<close> is \<^verbatim>\<open>None\<close>.
\<close>

lemma sample_items_normalize:
  "\<exists>d'. getInfoForIDs_item True raw_tagged = Inr d'"
  "\<exists>d'. doPowerSearch_item False raw_untagged = Inr d'"
  "\<exists>d'. getInfoForIDs_item True raw_null_tags = Inr d'"
  by (simp_all add: getInfoForIDs_item_def doPowerSearch_item_def normalize_descriptor_def
      raw_tagged_def raw_untagged_def raw_null_tags_def canonical_tags_def
      py_get_def py_subscript_def py_index_def py_iter_def py_sorted_def py_delitem_def
      py_del_def py_in_def)

lemma sample_raw_tag_texts:
  "raw_tag_texts raw_tagged = [''pear'', ''apple'', ''fig'']"
  "item_field ''tags'' raw_untagged = JNull"
  "item_field ''tags'' raw_null_tags = JNull"
  by (simp_all add: raw_tag_texts_def raw_tagged_def raw_untagged_def raw_null_tags_def
      item_field_def py_get_def)

lemma sample_sort: "sort [''pear'', ''apple'', ''fig''] = [''apple'', ''fig'', ''pear'']"
  by code_simp

theorem normalized_tags_witness:
  "(case getInfoForIDs_item True raw_tagged of
      Inr d' \<Rightarrow> item_field ''tags'' d' = JList [JStr ''apple'', JStr ''fig'', JStr ''pear'']
                \<and> tags_normalized d'
    | Inl e \<Rightarrow> False)
   \<and> (case doPowerSearch_item False raw_untagged of
      Inr d' \<Rightarrow> item_field ''tags'' d' = JList []
    | Inl e \<Rightarrow> False)
   \<and> (case getInfoForIDs_item True raw_null_tags of
      Inr d' \<Rightarrow> item_field ''tags'' d' = JList []
    | Inl e \<Rightarrow> False)"
proof (intro conjI)
  from sample_items_normalize(1) obtain d' where d: "getInfoForIDs_item True raw_tagged = Inr d'" ..
  from normalized_tags[of True raw_tagged d'] d
  show "case getInfoForIDs_item True raw_tagged of
      Inr d' \<Rightarrow> item_field ''tags'' d' = JList [JStr ''apple'', JStr ''fig'', JStr ''pear'']
                \<and> tags_normalized d'
    | Inl e \<Rightarrow> False"
    by (simp add: sample_raw_tag_texts sample_sort)
next
  from sample_items_normalize(2) obtain d' where d: "doPowerSearch_item False raw_untagged = Inr d'" ..
  have "item_field ''tags'' d' = JList []"
    using normalized_tags[of False raw_untagged d'] d sample_raw_tag_texts(2) by blast
  with d show "case doPowerSearch_item False raw_untagged of
      Inr d' \<Rightarrow> item_field ''tags'' d' = JList []
    | Inl e \<Rightarrow> False"
    by simp
next
  from sample_items_normalize(3) obtain d' where d: "getInfoForIDs_item True raw_null_tags = Inr d'" ..
  have "item_field ''tags'' d' = JList []"
    using normalized_tags[of True raw_null_tags d'] d sample_raw_tag_texts(3) by blast
  with d show "case getInfoForIDs_item True raw_null_tags of
      Inr d' \<Rightarrow> item_field ''tags'' d' = JList []
    | Inl e \<Rightarrow> False"
    by simp
qed

section \<open>Normalising the description\<close>

lemma normalize_descriptor_description:
  assumes "normalize_descriptor raw = Inr d'"
  shows "item_field ''description'' d' =
    (if item_field ''description'' raw = JNull then JStr [] else item_field ''description'' raw)"
proof -
  from assms obtain d v where d: "raw = JObj d"
      "d' = JObj (normalize_description (py_set d ''tags'' v))"
    by (auto simp: normalize_descriptor_def bindE_def split: json.splits sum.splits)
  then show ?thesis
    by (simp add: item_field_def normalize_description_def py_get_set)
qed

text \<open>
  Claim C9. Normalising the description is idempotent. For every record: a second
  application changes nothing; after one application the description is not \<^verbatim>\<open>None\<close>;
  a description that was \<^verbatim>\<open>None\<close> or absent has become the empty string; a record whose
  description was there is left as it was. The body of either loop applies this step:
  the description of the descriptor it produces is the empty string when the raw one was
  \<^verbatim>\<open>None\<close> or absent, and the raw one otherwise.
\<close>

theorem normalize_description_idempotent:
  "normalize_description (normalize_description d) = normalize_description d
   \<and> py_get (normalize_description d) ''description'' \<noteq> JNull
   \<and> (py_get d ''description'' = JNull \<longrightarrow>
        py_get (normalize_description d) ''description'' = JStr [])
   \<and> (py_get d ''description'' \<noteq> JNull \<longrightarrow> normalize_description d = d)
   \<and> (getInfoForIDs_item inc raw = Inr d' \<or> doPowerSearch_item inc raw = Inr d' \<longrightarrow>
        item_field ''description'' d' =
          (if item_field ''description'' raw = JNull then JStr []
           else item_field ''description'' raw))"
proof (intro conjI impI)
  show "normalize_description (normalize_description d) = normalize_description d"
    by (simp add: normalize_description_def py_get_set)
  show "py_get (normalize_description d) ''description'' \<noteq> JNull"
    by (simp add: normalize_description_def py_get_set)
  show "py_get (normalize_description d) ''description'' = JStr []"
    if "py_get d ''description'' = JNull"
    using that by (simp add: normalize_description_def py_get_set)
  show "normalize_description d = d" if "py_get d ''description'' \<noteq> JNull"
    using that by (simp add: normalize_description_def)
  assume "getInfoForIDs_item inc raw = Inr d' \<or> doPowerSearch_item inc raw = Inr d'"
  then obtain raw1 where r: "normalize_descriptor raw1 = Inr d'"
      "item_field ''description'' raw1 = item_field ''description'' raw"
    by (auto simp: getInfoForIDs_item_def doPowerSearch_item_def bindE_def py_delitem_field
        split: if_splits sum.splits)
  from normalize_descriptor_description[OF r(1)] r(2)
  show "item_field ''description'' d' =
          (if item_field ''description'' raw = JNull then JStr []
           else item_field ''description'' raw)"
    by simp
qed

text \<open>
  C9 at a record whose description is \<^verbatim>\<open>None\<close>, at a record with a description, and
  at the sample descriptor whose description is \<^verbatim>\<open>None\<close>.
\<close>

theorem normalize_description_idempotent_witness:
  "py_get (normalize_description [(''description'', JNull)]) ''description'' = JStr []
   \<and> normalize_description (normalize_description [(''description'', JNull)])
       = normalize_description [(''description'', JNull)]
   \<and> normalize_description [(''description'', JStr ''d'')] = [(''description'', JStr ''d'')]
   \<and> (case getInfoForIDs_item True raw_null_tags of
         Inr d' \<Rightarrow> item_field ''description'' d' = JStr []
       | Inl e \<Rightarrow> False)"
proof (intro conjI)
  show "py_get (normalize_description [(''description'', JNull)]) ''description'' = JStr []"
    using normalize_description_idempotent[of "[(''description'', JNull)]"]
    by (simp add: py_get_def)
  show "normalize_description (normalize_description [(''description'', JNull)])
       = normalize_description [(''description'', JNull)]"
    using normalize_description_idempotent[of "[(''description'', JNull)]"] by simp
  show "normalize_description [(''description'', JStr ''d'')] = [(''description'', JStr ''d'')]"
    using normalize_description_idempotent[of "[(''description'', JStr ''d'')]"]
    by (simp add: py_get_def)
  from sample_items_normalize(3) obtain d' where d: "getInfoForIDs_item True raw_null_tags = Inr d'" ..
  from normalize_description_idempotent[of _ True raw_null_tags d'] d
  show "case getInfoForIDs_item True raw_null_tags of
         Inr d' \<Rightarrow> item_field ''description'' d' = JStr []
       | Inl e \<Rightarrow> False"
    by (simp add: raw_null_tags_def item_field_def py_get_def)
qed

section \<open>Properties of the write functions\<close>

lemma postThreatDescriptor_null:
  assumes "postThreatDescriptor L url0 p s dry w = (Inr (v, t, JNull), w')"
  shows "\<not> dry \<and> (\<exists>url data. requests w' = requests w @ [POST url data]
            \<and> post_body (on_post w (length (requests w)) url data) = Some JNull)"
proof -
  let ?url = "fold (\<lambda>(key, value) u. u @ ''&'' @ key @ ''='' @ quote L (str_of L value)) p url0"
  let ?data = "urlencode L p"
  from assms have nd: "\<not> dry"
    by (auto simp: postThreatDescriptor_def Let_def split: if_splits)
  with assms have w': "w' = w\<lparr>requests := requests w @ [POST ?url ?data]\<rparr>"
    by (auto simp: postThreatDescriptor_def Let_def split: post_outcome.splits)
  from assms nd have "post_body (on_post w (length (requests w)) ?url ?data) = Some JNull"
    by (auto simp: postThreatDescriptor_def Let_def post_body_def bindE_def split: post_outcome.splits sum.splits)
  with nd w' show ?thesis by auto
qed

lemma postThreatDescriptor_one_error:
  "postThreatDescriptor L url0 p s dry w = (Inr (v, t, b), w') \<Longrightarrow> v = None"
  by (auto simp: postThreatDescriptor_def Let_def bindE_def split: if_splits post_outcome.splits sum.splits)

lemma postThreatDescriptor_dry:
  "postThreatDescriptor L url0 p s True w = (Inr (None, None, JStr []), w)"
  by (simp add: postThreatDescriptor_def Let_def)

text \<open>
  Claim C3, as amended. For every call of \<^verbatim>\<open>submitThreatDescriptor\<close> or
  \<^verbatim>\<open>updateThreatDescriptor\<close>: when validation fails the result is exactly
  \<^verbatim>\<open>[errorMessage, None, None]\<close> and the state is unchanged (no request is made). When the
  body of a result is \<^verbatim>\<open>None\<close>, either validation failed (and no request was made), or
  the call was not a dry run, made exactly one POST, and the body that the remote side
  sent decodes to the JSON value \<^verbatim>\<open>null\<close>. At most one of the two errors is set.
\<close>

theorem write_result_shape:
  "(validatePostPararmsForSubmit p = Some msg \<longrightarrow>
      submitThreatDescriptor L p s dry w = (Inr (Some msg, None, JNull), w))
   \<and> (validatePostPararmsForUpdate p = Some msg \<longrightarrow>
      updateThreatDescriptor L p s dry w = (Inr (Some msg, None, JNull), w))
   \<and> (submitThreatDescriptor L p s dry w = (Inr (v, t, JNull), w') \<longrightarrow>
        (validatePostPararmsForSubmit p \<noteq> None \<and> w' = w)
        \<or> (\<not> dry \<and> (\<exists>url data. requests w' = requests w @ [POST url data]
              \<and> post_body (on_post w (length (requests w)) url data) = Some JNull)))
   \<and> (updateThreatDescriptor L p s dry w = (Inr (v, t, JNull), w') \<longrightarrow>
        (validatePostPararmsForUpdate p \<noteq> None \<and> w' = w)
        \<or> (\<not> dry \<and> (\<exists>url data. requests w' = requests w @ [POST url data]
              \<and> post_body (on_post w (length (requests w)) url data) = Some JNull)))
   \<and> (submitThreatDescriptor L p s dry w = (Inr (v, t, b), w')
        \<or> updateThreatDescriptor L p s dry w = (Inr (v, t, b), w') \<longrightarrow> v = None \<or> t = None)"
proof (intro conjI impI)
  show "submitThreatDescriptor L p s dry w = (Inr (Some msg, None, JNull), w)"
    if "validatePostPararmsForSubmit p = Some msg"
    using that by (simp add: submitThreatDescriptor_def)
  show "updateThreatDescriptor L p s dry w = (Inr (Some msg, None, JNull), w)"
    if "validatePostPararmsForUpdate p = Some msg"
    using that by (simp add: updateThreatDescriptor_def)
  show "(validatePostPararmsForSubmit p \<noteq> None \<and> w' = w)
        \<or> (\<not> dry \<and> (\<exists>url data. requests w' = requests w @ [POST url data]
              \<and> post_body (on_post w (length (requests w)) url data) = Some JNull))"
    if a: "submitThreatDescriptor L p s dry w = (Inr (v, t, JNull), w')"
  proof (cases "validatePostPararmsForSubmit p")
    case (Some m)
    with a have "w' = w" by (simp add: submitThreatDescriptor_def)
    with Some show ?thesis by simp
  next
    case None
    with a obtain url where "postThreatDescriptor L url p s dry w = (Inr (v, t, JNull), w')"
      by (auto simp: submitThreatDescriptor_def split: sum.splits)
    from postThreatDescriptor_null[OF this] show ?thesis by blast
  qed
  show "(validatePostPararmsForUpdate p \<noteq> None \<and> w' = w)
        \<or> (\<not> dry \<and> (\<exists>url data. requests w' = requests w @ [POST url data]
              \<and> post_body (on_post w (length (requests w)) url data) = Some JNull))"
    if a: "updateThreatDescriptor L p s dry w = (Inr (v, t, JNull), w')"
  proof (cases "validatePostPararmsForUpdate p")
    case (Some m)
    with a have "w' = w" by (simp add: updateThreatDescriptor_def)
    with Some show ?thesis by simp
  next
    case None
    with a obtain url where "postThreatDescriptor L url p s dry w = (Inr (v, t, JNull), w')"
      by (auto simp: updateThreatDescriptor_def split: sum.splits)
    from postThreatDescriptor_null[OF this] show ?thesis by blast
  qed
  show "v = None \<or> t = None"
    if a: "submitThreatDescriptor L p s dry w = (Inr (v, t, b), w')
        \<or> updateThreatDescriptor L p s dry w = (Inr (v, t, b), w')"
    using a
    by (auto simp: submitThreatDescriptor_def updateThreatDescriptor_def
          split: option.splits sum.splits dest: postThreatDescriptor_one_error)
qed


text \<open>A submission of complete parameters to a remote side that answers \<^verbatim>\<open>null\<close>.\<close>

lemma submit_null_body_run:
  "validatePostPararmsForSubmit submit_params = None"
  "submitThreatDescriptor sample_lib submit_params False False world_null_body
       = (Inr (None, None, JNull),
          world_null_body\<lparr>requests :=
            [POST (fold (\<lambda>(key, value) u. u @ ''&'' @ key @ ''='' @ quote sample_lib (str_of sample_lib value))
                     submit_params ''https://graph.facebook.com/v6.0/threat_descriptors/?access_token=t'')
                  (urlencode sample_lib submit_params)]\<rparr>)"
proof -
  show v: "validatePostPararmsForSubmit submit_params = None"
    by (simp add: validatePostPararmsForSubmit_def submit_params_def requiredFields_def py_get_def)
  show "submitThreatDescriptor sample_lib submit_params False False world_null_body
       = (Inr (None, None, JNull),
          world_null_body\<lparr>requests :=
            [POST (fold (\<lambda>(key, value) u. u @ ''&'' @ key @ ''='' @ quote sample_lib (str_of sample_lib value))
                     submit_params ''https://graph.facebook.com/v6.0/threat_descriptors/?access_token=t'')
                  (urlencode sample_lib submit_params)]\<rparr>)"
    by (simp add: v submitThreatDescriptor_def postThreatDescriptor_def plus_APP_TOKEN_def
        world_null_body_def Let_def)
qed

text \<open>
  C3 as amended, at an empty parameter map (both validators fail, nothing is sent) and
  at the submission above (the body is \<^verbatim>\<open>None\<close> because the remote side sent \<^verbatim>\<open>null\<close>).
\<close>

theorem write_result_shape_witness:
  "submitThreatDescriptor sample_lib [] False False world_null_body
     = (Inr (Some ''Missing fields indicator,type,description,share_level,status,privacy_type'',
             None, JNull), world_null_body)
   \<and> updateThreatDescriptor sample_lib [] False False world_null_body
     = (Inr (Some ''Descriptor ID must be specified for update.'', None, JNull), world_null_body)
   \<and> (\<exists>url data. post_body (on_post world_null_body (length (requests world_null_body)) url data)
          = Some JNull)"
proof (intro conjI)
  have v: "validatePostPararmsForSubmit []
      = Some ''Missing fields indicator,type,description,share_level,status,privacy_type''"
    by (simp add: validatePostPararmsForSubmit_def requiredFields_def py_get_def)
  show "submitThreatDescriptor sample_lib [] False False world_null_body
     = (Inr (Some ''Missing fields indicator,type,description,share_level,status,privacy_type'',
             None, JNull), world_null_body)"
    using write_result_shape[where p = "[]" and L = sample_lib and s = False and dry = False
        and w = world_null_body
        and msg = "''Missing fields indicator,type,description,share_level,status,privacy_type''"] v
    by simp
  have u: "validatePostPararmsForUpdate [] = Some ''Descriptor ID must be specified for update.''"
    by (simp add: validatePostPararmsForUpdate_def py_get_def)
  show "updateThreatDescriptor sample_lib [] False False world_null_body
     = (Inr (Some ''Descriptor ID must be specified for update.'', None, JNull), world_null_body)"
    using write_result_shape[where p = "[]" and L = sample_lib and s = False and dry = False
        and w = world_null_body and msg = "''Descriptor ID must be specified for update.''"] u
    by simp
  show "\<exists>url data. post_body (on_post world_null_body (length (requests world_null_body)) url data)
          = Some JNull"
  proof -
    let ?w' = "snd (submitThreatDescriptor sample_lib submit_params False False world_null_body)"
    have run: "submitThreatDescriptor sample_lib submit_params False False world_null_body
        = (Inr (None, None, JNull), ?w')"
      using submit_null_body_run(2) by simp
    from write_result_shape[where p = submit_params and L = sample_lib and s = False
        and dry = False and w = world_null_body and v = None and t = None and w' = ?w']
      run submit_null_body_run(1)
    show ?thesis by blast
  qed
qed

text \<open>
  The claim C3 as it was stated fails: with complete parameters (validation passes), no
  dry run, and a remote side that answers \<^verbatim>\<open>null\<close>, the body of the result is \<^verbatim>\<open>None\<close>.
\<close>

theorem null_body_counterexample:
  "validatePostPararmsForSubmit submit_params = None
   \<and> fst (submitThreatDescriptor sample_lib submit_params False False world_null_body)
       = Inr (None, None, JNull)"
  by (simp add: submit_null_body_run)

section \<open>Properties of copyThreatDescriptor\<close>

lemma copy_prepare_params:
  "validatePostPararmsForCopy p = None \<Longrightarrow>
   fst (snd (copyThreatDescriptor_prepare L p s w)) = AList.delete ''descriptor_id'' p"
  "validatePostPararmsForCopy p = Some msg \<Longrightarrow>
   copyThreatDescriptor_prepare L p s w = (Inr (Inl (Some msg, None, JNull)), p, w)"
proof -
  assume v: "validatePostPararmsForCopy p = None"
  then have "py_get p ''descriptor_id'' \<noteq> JNull"
    by (auto simp: validatePostPararmsForCopy_def split: if_splits)
  then obtain sourceID where "py_index p ''descriptor_id'' = Inr sourceID"
    by (auto simp: py_get_def py_index_def split: option.splits)
  with v show "fst (snd (copyThreatDescriptor_prepare L p s w)) = AList.delete ''descriptor_id'' p"
    by (auto simp: copyThreatDescriptor_prepare_def Let_def split: prod.splits sum.splits list.splits)
next
  assume "validatePostPararmsForCopy p = Some msg"
  then show "copyThreatDescriptor_prepare L p s w = (Inr (Inl (Some msg, None, JNull)), p, w)"
    by (simp add: copyThreatDescriptor_prepare_def)
qed

lemma copy_params_after:
  "fst (snd (copyThreatDescriptor L p s dry w)) = fst (snd (copyThreatDescriptor_prepare L p s w))"
  by (auto simp: copyThreatDescriptor_def split: prod.splits sum.splits)

text \<open>
  Claim C10. For every parameter map that passes the validation for a copy,
  \<^verbatim>\<open>copyThreatDescriptor\<close> deletes \<^verbatim>\<open>descriptor_id\<close> from the caller's dictionary: the key
  was there, and whatever the fetch of the source descriptor and the submission then do
  (also when they raise), the caller's dictionary afterwards is the one before without
  that key, every other key keeping its value. The deletion comes before the fetch, so
  no outcome of the fetch undoes it. A validator does not change the dictionary: when the
  validation of a copy fails, the caller's dictionary and the state are as before. (The
  three validators only read through \<^verbatim>\<open>get\<close>, which is why they are functions of the map.)
\<close>

theorem copyThreatDescriptor_deletes_descriptor_id:
  "(validatePostPararmsForCopy p = None \<longrightarrow>
      py_in ''descriptor_id'' p
      \<and> fst (snd (copyThreatDescriptor L p s dry w)) = AList.delete ''descriptor_id'' p
      \<and> \<not> py_in ''descriptor_id'' (fst (snd (copyThreatDescriptor L p s dry w)))
      \<and> (\<forall>k. k \<noteq> ''descriptor_id'' \<longrightarrow>
            map_of (fst (snd (copyThreatDescriptor L p s dry w))) k = map_of p k))
   \<and> (validatePostPararmsForCopy p = Some msg \<longrightarrow>
      copyThreatDescriptor L p s dry w = (Inr (Some msg, None, JNull), p, w))"
proof (intro conjI impI allI)
  assume v: "validatePostPararmsForCopy p = None"
  then have "py_get p ''descriptor_id'' \<noteq> JNull"
    by (auto simp: validatePostPararmsForCopy_def split: if_splits)
  then show "py_in ''descriptor_id'' p"
    by (auto simp: py_get_def py_in_def split: option.splits)
  show after: "fst (snd (copyThreatDescriptor L p s dry w)) = AList.delete ''descriptor_id'' p"
    using copy_prepare_params(1)[OF v] by (simp add: copy_params_after)
  show "\<not> py_in ''descriptor_id'' (fst (snd (copyThreatDescriptor L p s dry w)))"
    by (simp add: after py_in_def delete_conv')
  fix k :: string assume "k \<noteq> ''descriptor_id''"
  then show "map_of (fst (snd (copyThreatDescriptor L p s dry w))) k = map_of p k"
    by (simp add: after delete_conv')
next
  assume "validatePostPararmsForCopy p = Some msg"
  from copy_prepare_params(2)[OF this]
  show "copyThreatDescriptor L p s dry w = (Inr (Some msg, None, JNull), p, w)"
    by (simp add: copyThreatDescriptor_def)
qed

text \<open>
  C10 at the sample copy (validation passes) and at a map without
  \<^verbatim>\<open>privacy_members\<close> (validation fails, the map is untouched).
\<close>

theorem copyThreatDescriptor_deletes_descriptor_id_witness:
  "fst (snd (copyThreatDescriptor sample_lib copy_params False True world_copy))
     = [(''description'', JStr ''d''), (''privacy_type'', JStr ''HAS_WHITELIST''),
        (''privacy_members'', JStr ''1,2'')]
   \<and> copyThreatDescriptor sample_lib [(''descriptor_id'', JStr ''1''), (''privacy_type'', JStr ''x'')]
        False True world_copy
     = (Inr (Some ''Privacy members must be specified for copy.'', None, JNull),
        [(''descriptor_id'', JStr ''1''), (''privacy_type'', JStr ''x'')], world_copy)"
proof (intro conjI)
  have v: "validatePostPararmsForCopy copy_params = None"
    by (simp add: validatePostPararmsForCopy_def copy_params_def py_get_def)
  have d: "AList.delete ''descriptor_id'' copy_params
     = [(''description'', JStr ''d''), (''privacy_type'', JStr ''HAS_WHITELIST''),
        (''privacy_members'', JStr ''1,2'')]"
    by (simp add: copy_params_def AList.delete_eq)
  show "fst (snd (copyThreatDescriptor sample_lib copy_params False True world_copy))
     = [(''description'', JStr ''d''), (''privacy_type'', JStr ''HAS_WHITELIST''),
        (''privacy_members'', JStr ''1,2'')]"
    using copyThreatDescriptor_deletes_descriptor_id
      [where p = copy_params and L = sample_lib and s = False and dry = True and w = world_copy] v d
    by simp
  have v2: "validatePostPararmsForCopy [(''descriptor_id'', JStr ''1''), (''privacy_type'', JStr ''x'')]
      = Some ''Privacy members must be specified for copy.''"
    by (simp add: validatePostPararmsForCopy_def py_get_def)
  show "copyThreatDescriptor sample_lib [(''descriptor_id'', JStr ''1''), (''privacy_type'', JStr ''x'')]
        False True world_copy
     = (Inr (Some ''Privacy members must be specified for copy.'', None, JNull),
        [(''descriptor_id'', JStr ''1''), (''privacy_type'', JStr ''x'')], world_copy)"
    using copyThreatDescriptor_deletes_descriptor_id
      [where p = "[(''descriptor_id'', JStr ''1''), (''privacy_type'', JStr ''x'')]"
         and msg = "''Privacy members must be specified for copy.''"
         and L = sample_lib and s = False and dry = True and w = world_copy] v2
    by simp
qed

text \<open>
  Claim C1, evaluated on the code. The source descriptor 123 comes back from the remote
  side as \<^verbatim>\<open>{raw_indicator: "abc", reactions: {...}, tags: null}\<close>; the caller supplies
  \<^verbatim>\<open>descriptor_id\<close>, \<^verbatim>\<open>description: "d"\<close> and the two privacy fields. The parameters
  that \<^verbatim>\<open>copyThreatDescriptor\<close> passes to \<^verbatim>\<open>submitThreatDescriptor\<close> hold
  \<^verbatim>\<open>indicator: "abc"\<close> and \<^verbatim>\<open>description: "d"\<close> and no \<^verbatim>\<open>reactions\<close>, but they do hold
  \<^verbatim>\<open>tags\<close>, with the empty list: \<^verbatim>\<open>getInfoForIDs\<close> has replaced the \<^verbatim>\<open>None\<close> by \<^verbatim>\<open>[]\<close>
  before the test \<^verbatim>\<open>newDescriptor["tags"] is None\<close> is made. Applied to the descriptor
  as the remote side sent it, the same steps do drop \<^verbatim>\<open>tags\<close> (second equation).
\<close>

theorem copy_payload_keeps_empty_tags:
  "fst (copyThreatDescriptor_prepare sample_lib copy_params False world_copy)
     = Inr (Inr [(''tags'', JList []), (''description'', JStr ''d''), (''indicator'', JStr ''abc''),
                 (''privacy_type'', JStr ''HAS_WHITELIST''), (''privacy_members'', JStr ''1,2'')])
   \<and> copy_payload source_descriptor (AList.delete ''descriptor_id'' copy_params)
     = Inr [(''indicator'', JStr ''abc''), (''description'', JStr ''d''),
            (''privacy_type'', JStr ''HAS_WHITELIST''), (''privacy_members'', JStr ''1,2'')]"
  by code_simp

section \<open>Properties of parseTimeStringToEpochSeconds\<close>

lemma datetime_loop_none:
  "(\<forall>fmt \<in> set fmts. strptime_timestamp L s fmt = Inl ValueError) \<Longrightarrow>
   parseDateTimeStringToEpochSeconds_loop L s fmts = Inr None"
  by (induction fmts) (simp_all add: parseDateTimeStringSingleFormat_def)

lemma strip_newline_snoc: "strip_newline (xs @ [CHR 0x0A]) = xs"
  by (simp add: strip_newline_def)

lemma relative_match_form:
  assumes "relative_match unit s = Some ds" and "CHR 0x0A \<notin> set unit"
  shows "relative_form unit (strip_newline s)"
proof -
  from assms(1) obtain rest where s: "s = CHR ''-'' # rest"
    by (cases s) (auto simp: relative_match_def split: if_splits)
  let ?d = "takeWhile is_digit rest" and ?a = "dropWhile is_digit rest"
  from assms(1) s have d: "?d \<noteq> []"
    and a: "?a = unit \<or> ?a = unit @ ''s'' \<or> ?a = unit @ [CHR 0x0A] \<or> ?a = unit @ ''s'' @ [CHR 0x0A]"
    by (auto simp: relative_match_def Let_def split: if_splits)
  have rest: "rest = ?d @ ?a" by simp
  have nl_digit: "\<not> is_digit (CHR 0x0A)" by (simp add: is_digit_def)
  have last_d: "last ?d \<noteq> CHR 0x0A"
    using d nl_digit by (metis last_in_set set_takeWhileD)
  consider (plain) "?a = unit \<or> ?a = unit @ ''s''"
    | (nl) u where "(u = unit \<or> u = unit @ ''s'')" "?a = u @ [CHR 0x0A]"
    using a by auto
  then show ?thesis
  proof cases
    case plain
    have "last s \<noteq> CHR 0x0A"
    proof (cases "?a = []")
      case True
      then have "rest = ?d" by (metis append_Nil2 takeWhile_dropWhile_id)
      then show ?thesis using s d last_d by (metis last_ConsR)
    next
      case False
      then have "last s = last ?a" using s rest by (metis last_ConsR last_appendR append_is_Nil_conv)
      have "last ?a \<in> set unit \<or> last ?a = CHR ''s''"
      proof (cases "?a = unit")
        case True
        with False have "last ?a \<in> set ?a" by (intro last_in_set)
        with True show ?thesis by simp
      next
        case False
        with plain have "?a = unit @ ''s''" by simp
        then show ?thesis by simp
      qed
      then have "last ?a \<noteq> CHR 0x0A" using assms(2) by auto
      then show ?thesis using \<open>last s = last ?a\<close> by simp
    qed
    then have "strip_newline s = s" by (simp add: strip_newline_def)
    then show ?thesis using s d plain by (auto simp: relative_form_def)
  next
    case nl
    have s': "s = (CHR ''-'' # ?d @ u) @ [CHR 0x0A]" using s rest nl(2) by (metis append_Cons append.assoc)
    then have strip: "strip_newline s = CHR ''-'' # ?d @ u"
      by (metis strip_newline_snoc)
    have hd_u: "u = [] \<or> \<not> is_digit (hd u)"
      using nl(2) by (metis dropWhile_eq_Nil_conv hd_append2 hd_dropWhile snoc_eq_iff_butlast)
    have all_d: "\<forall>x \<in> set ?d. is_digit x" by (auto dest: set_takeWhileD)
    have tw: "takeWhile is_digit (?d @ u) = ?d"
      using hd_u all_d by (cases u) (auto simp: takeWhile_append2)
    have dw: "dropWhile is_digit (?d @ u) = u"
      using hd_u all_d by (cases u) (auto simp: dropWhile_append2)
    show ?thesis
      unfolding strip relative_form_def using d nl(1) tw dw by auto
  qed
qed

lemma unit_words_no_newline: "unit \<in> set unit_words \<Longrightarrow> CHR 0x0A \<notin> set unit"
  by (auto simp: unit_words_def)

lemma relative_none:
  "\<not> relative_form unit (strip_newline s) \<Longrightarrow> unit \<in> set unit_words \<Longrightarrow>
   parseRelativeString L unit keyword s = Inr None"
  using relative_match_form[of unit s] unit_words_no_newline[of unit]
  by (cases "relative_match unit s") (auto simp: parseRelativeString_def)

text \<open>
  Claim C8, as amended. \<^verbatim>\<open>parseTimeStringToEpochSeconds\<close> tries the integer reading
  first: whenever \<^verbatim>\<open>int\<close> accepts the string, the result is exactly that integer. A
  string that \<^verbatim>\<open>int\<close> rejects, that none of the five formats of \<open>DATETIME_FORMATS\<close>
  matches, and that, once a newline at its very end is taken off, is not of the relative
  form for any of the four unit words, gives \<^verbatim>\<open>None\<close> and raises nothing.
\<close>

theorem parseTimeStringToEpochSeconds_forms:
  "(int_of L s = Some n \<longrightarrow> parseTimeStringToEpochSeconds L s = Inr (Some n))
   \<and> (int_of L s = None
       \<and> (\<forall>fmt \<in> set DATETIME_FORMATS. strptime_timestamp L s fmt = Inl ValueError)
       \<and> (\<forall>unit \<in> set unit_words. \<not> relative_form unit (strip_newline s))
       \<longrightarrow> parseTimeStringToEpochSeconds L s = Inr None)"
proof (intro conjI impI)
  assume "int_of L s = Some n"
  then show "parseTimeStringToEpochSeconds L s = Inr (Some n)"
    by (simp add: parseTimeStringToEpochSeconds_def parseIntStringToEpochSeconds_def)
next
  assume a: "int_of L s = None
       \<and> (\<forall>fmt \<in> set DATETIME_FORMATS. strptime_timestamp L s fmt = Inl ValueError)
       \<and> (\<forall>unit \<in> set unit_words. \<not> relative_form unit (strip_newline s))"
  then have dt: "parseDateTimeStringToEpochSeconds L s = Inr None"
    by (simp add: parseDateTimeStringToEpochSeconds_def datetime_loop_none)
  from a have rel: "parseRelativeStringToEpochSeconds L s = Inr None"
    by (simp add: parseRelativeStringToEpochSeconds_def parseRelativeStringMinute_def
        parseRelativeStringHour_def parseRelativeStringDay_def parseRelativeStringWeek_def
        relative_none unit_words_def)
  from a dt rel show "parseTimeStringToEpochSeconds L s = Inr None"
    by (simp add: parseTimeStringToEpochSeconds_def parseIntStringToEpochSeconds_def)
qed

text \<open>The sample library at the strings used below.\<close>

lemma sample_lib_fields:
  "int_of sample_lib = sample_int" "strptime_timestamp sample_lib = sample_strptime"
  "now_minus sample_lib = sample_now_minus"
  by (simp_all add: sample_lib_def)

lemma sample_int_values:
  "sample_int ''1591626448'' = Some 1591626448"
  "sample_int ''nonesuch'' = None"
  "sample_int week_newline = None"
  "sample_int ''1'' = Some 1"
  by (simp_all add: sample_int_def week_newline_def is_space_def is_digit_def digit_val_def Let_def)

lemma sample_strptime_values:
  "sample_strptime ''nonesuch'' fmt = Inl ValueError"
  "sample_strptime week_newline fmt = Inl ValueError"
  by (simp_all add: sample_strptime_def week_newline_def is_digit_def)

lemma sample_relative_values:
  "\<not> relative_form ''minute'' week_newline"
  "\<not> relative_form ''hour'' week_newline"
  "\<not> relative_form ''day'' week_newline"
  "\<not> relative_form ''week'' week_newline"
  "relative_match ''minute'' week_newline = None"
  "relative_match ''hour'' week_newline = None"
  "relative_match ''day'' week_newline = None"
  "relative_match ''week'' week_newline = Some ''1''"
  by (simp_all add: relative_form_def relative_match_def week_newline_def is_digit_def)

lemma sample_nonesuch_forms:
  "\<forall>unit \<in> set unit_words. \<not> relative_form unit (strip_newline ''nonesuch'')"
  by (simp add: unit_words_def strip_newline_def relative_form_def)

lemma sample_newline_run:
  "parseTimeStringToEpochSeconds sample_lib week_newline = Inr (Some 1599395200)"
proof -
  have dt: "parseDateTimeStringToEpochSeconds sample_lib week_newline = Inr None"
    unfolding parseDateTimeStringToEpochSeconds_def
    by (rule datetime_loop_none) (simp add: sample_lib_fields sample_strptime_values)
  have rel: "parseRelativeStringToEpochSeconds sample_lib week_newline = Inr (Some 1599395200)"
    by (simp add: parseRelativeStringToEpochSeconds_def parseRelativeStringMinute_def
        parseRelativeStringHour_def parseRelativeStringDay_def parseRelativeStringWeek_def
        parseRelativeString_def sample_relative_values sample_lib_fields sample_int_values
        sample_now_minus_def sample_now_def)
  show ?thesis
    by (simp add: parseTimeStringToEpochSeconds_def parseIntStringToEpochSeconds_def
        sample_lib_fields sample_int_values dt rel)
qed

text \<open>C8 at \<^verbatim>\<open>"1591626448"\<close> (the integer itself) and at \<^verbatim>\<open>"nonesuch"\<close> (unresolved).\<close>

theorem parseTimeStringToEpochSeconds_forms_witness:
  "parseTimeStringToEpochSeconds sample_lib ''1591626448'' = Inr (Some 1591626448)
   \<and> parseTimeStringToEpochSeconds sample_lib ''nonesuch'' = Inr None"
proof (intro conjI)
  show "parseTimeStringToEpochSeconds sample_lib ''1591626448'' = Inr (Some 1591626448)"
    using parseTimeStringToEpochSeconds_forms[of sample_lib "''1591626448''" 1591626448]
    by (simp add: sample_lib_fields sample_int_values)
  show "parseTimeStringToEpochSeconds sample_lib ''nonesuch'' = Inr None"
    using parseTimeStringToEpochSeconds_forms[of sample_lib "''nonesuch''"] sample_nonesuch_forms
    by (simp add: sample_lib_fields sample_int_values sample_strptime_values)
qed

text \<open>
  The claim C8 as it was stated fails at \<^verbatim>\<open>"-1week"\<close> followed by a newline: \<^verbatim>\<open>int\<close>
  rejects it, no format matches it, and it is not of the relative form for any unit word
  (it has one character more), yet the pattern for weeks matches, because \<^verbatim>\<open>$\<close> also
  matches before a final newline, and the result is the time one week ago.
\<close>

theorem trailing_newline_counterexample:
  "int_of sample_lib week_newline = None
   \<and> strptime_timestamp sample_lib week_newline ''%Y-%m-%dT%H:%M:%S%z'' = Inl ValueError
   \<and> strptime_timestamp sample_lib week_newline ''%Y-%m-%d %H:%M:%S'' = Inl ValueError
   \<and> strptime_timestamp sample_lib week_newline ''%Y/%m/%d %H:%M:%S'' = Inl ValueError
   \<and> strptime_timestamp sample_lib week_newline ''%Y-%m-%dT%H:%M:%S'' = Inl ValueError
   \<and> strptime_timestamp sample_lib week_newline ''%Y-%m-%dT%H:%M:%SZ'' = Inl ValueError
   \<and> \<not> relative_form ''minute'' week_newline
   \<and> \<not> relative_form ''hour'' week_newline
   \<and> \<not> relative_form ''day'' week_newline
   \<and> \<not> relative_form ''week'' week_newline
   \<and> parseTimeStringToEpochSeconds sample_lib week_newline = Inr (Some 1599395200)"
  using sample_relative_values(1-4) sample_newline_run
  by (simp add: sample_lib_fields sample_int_values sample_strptime_values)

end
